theory Spec2Isabelle
  imports Complex_Main "HOL-Library.Sublist"
begin

section \<open>RDS PostgreSQL backup script (backup.py)\<close>

text \<open>
  A shallow embedding of \<^verbatim>\<open>backup.py\<close>: the module-level configuration, the three helper
  functions \<^verbatim>\<open>send_cloudwatch_metric\<close>, \<^verbatim>\<open>send_sns_notification\<close>, \<^verbatim>\<open>upload_to_s3\<close> and
  \<^verbatim>\<open>main\<close>.

  Python's \<^verbatim>\<open>str\<close> is modelled as \<open>string\<close> holding the UTF-8 encoding of the text. The
  script only concatenates strings, tests them for emptiness, and splits and strips them at
  the ASCII character \<^verbatim>\<open>/\<close>; all of these agree on code points and on UTF-8 bytes.
  A value that may be \<^verbatim>\<open>None\<close> (the result of \<^verbatim>\<open>os.environ.get\<close> without a default) is a
  \<open>string option\<close>.
\<close>

subsection \<open>Message texts\<close>

text \<open>
  The fixed parts of the log lines and notifications, in the order of the source. The
  non-ASCII characters are given by their UTF-8 bytes; each comment gives the source line
  and an English gloss.
\<close>

definition txt_missing_env :: string where
  \<comment> \<open>line 130: 'Missing required environment variables: '\<close>
  "txt_missing_env =
     [CHR 0xE7, CHR 0xBC, CHR 0xBA, CHR 0xE5, CHR 0xB0, CHR 0x91, CHR 0xE5, CHR 0xBF, CHR 0x85,
      CHR 0xE9, CHR 0x9C, CHR 0x80, CHR 0xE7, CHR 0x9A, CHR 0x84, CHR 0xE7, CHR 0x8E, CHR 0xAF,
      CHR 0xE5, CHR 0xA2, CHR 0x83, CHR 0xE5, CHR 0x8F, CHR 0x98, CHR 0xE9, CHR 0x87, CHR 0x8F] @
     '': ''"

definition txt_no_credentials :: string where
  \<comment> \<open>lines 78, 95, 108: 'AWS credentials not found (in ECS use an IAM role, a local run needs AWS credentials configured)'\<close>
  "txt_no_credentials =
     [CHR 0xE6, CHR 0x9C, CHR 0xAA, CHR 0xE6, CHR 0x89, CHR 0xBE, CHR 0xE5, CHR 0x88, CHR 0xB0] @
     '' AWS '' @
     [CHR 0xE5, CHR 0x87, CHR 0xAD, CHR 0xE8, CHR 0xAF, CHR 0x81, CHR 0xEF, CHR 0xBC, CHR 0x88,
      CHR 0xE5, CHR 0x9C, CHR 0xA8] @
     '' ECS '' @
     [CHR 0xE4, CHR 0xB8, CHR 0xAD, CHR 0xE5, CHR 0xBA, CHR 0x94, CHR 0xE4, CHR 0xBD, CHR 0xBF,
      CHR 0xE7, CHR 0x94, CHR 0xA8] @
     '' IAM '' @
     [CHR 0xE8, CHR 0xA7, CHR 0x92, CHR 0xE8, CHR 0x89, CHR 0xB2, CHR 0xEF, CHR 0xBC, CHR 0x8C,
      CHR 0xE6, CHR 0x9C, CHR 0xAC, CHR 0xE5, CHR 0x9C, CHR 0xB0, CHR 0xE8, CHR 0xBF, CHR 0x90,
      CHR 0xE8, CHR 0xA1, CHR 0x8C, CHR 0xE9, CHR 0x9C, CHR 0x80, CHR 0xE8, CHR 0xA6, CHR 0x81,
      CHR 0xE9, CHR 0x85, CHR 0x8D, CHR 0xE7, CHR 0xBD, CHR 0xAE] @
     '' AWS '' @
     [CHR 0xE5, CHR 0x87, CHR 0xAD, CHR 0xE8, CHR 0xAF, CHR 0x81, CHR 0xEF, CHR 0xBC, CHR 0x89]"

definition txt_metric_failed :: string where
  \<comment> \<open>lines 78, 80: 'Sending the CloudWatch metric failed: '\<close>
  "txt_metric_failed =
     [CHR 0xE5, CHR 0x8F, CHR 0x91, CHR 0xE9, CHR 0x80, CHR 0x81] @
     '' CloudWatch '' @
     [CHR 0xE6, CHR 0x8C, CHR 0x87, CHR 0xE6, CHR 0xA0, CHR 0x87, CHR 0xE5, CHR 0xA4, CHR 0xB1,
      CHR 0xE8, CHR 0xB4, CHR 0xA5] @
     '': ''"

definition txt_sns_sent :: string where
  \<comment> \<open>line 93: 'SNS notification sent: '\<close>
  "txt_sns_sent =
     ''SNS '' @
     [CHR 0xE9, CHR 0x80, CHR 0x9A, CHR 0xE7, CHR 0x9F, CHR 0xA5, CHR 0xE5, CHR 0xB7, CHR 0xB2,
      CHR 0xE5, CHR 0x8F, CHR 0x91, CHR 0xE9, CHR 0x80, CHR 0x81] @
     '': ''"

definition txt_sns_failed :: string where
  \<comment> \<open>lines 95, 97, 99: 'Sending the SNS notification failed: '\<close>
  "txt_sns_failed =
     [CHR 0xE5, CHR 0x8F, CHR 0x91, CHR 0xE9, CHR 0x80, CHR 0x81] @
     '' SNS '' @
     [CHR 0xE9, CHR 0x80, CHR 0x9A, CHR 0xE7, CHR 0x9F, CHR 0xA5, CHR 0xE5, CHR 0xA4, CHR 0xB1,
      CHR 0xE8, CHR 0xB4, CHR 0xA5] @
     '': ''"

definition txt_upload_ok :: string where
  \<comment> \<open>line 105: 'Uploaded to S3: s3://'\<close>
  "txt_upload_ok =
     [CHR 0xE6, CHR 0x88, CHR 0x90, CHR 0xE5, CHR 0x8A, CHR 0x9F, CHR 0xE4, CHR 0xB8, CHR 0x8A,
      CHR 0xE4, CHR 0xBC, CHR 0xA0, CHR 0xE5, CHR 0x88, CHR 0xB0] @
     '' S3: s3://''"

definition txt_upload_failed :: string where
  \<comment> \<open>lines 108, 111, 114, 192: 'Upload to S3 failed'\<close>
  "txt_upload_failed =
     [CHR 0xE4, CHR 0xB8, CHR 0x8A, CHR 0xE4, CHR 0xBC, CHR 0xA0, CHR 0xE5, CHR 0x88, CHR 0xB0] @
     '' S3 '' @
     [CHR 0xE5, CHR 0xA4, CHR 0xB1, CHR 0xE8, CHR 0xB4, CHR 0xA5]"

definition txt_start_backup :: string where
  \<comment> \<open>line 146: 'Starting backup of database: '\<close>
  "txt_start_backup =
     [CHR 0xE5, CHR 0xBC, CHR 0x80, CHR 0xE5, CHR 0xA7, CHR 0x8B, CHR 0xE5, CHR 0xA4, CHR 0x87,
      CHR 0xE4, CHR 0xBB, CHR 0xBD, CHR 0xE6, CHR 0x95, CHR 0xB0, CHR 0xE6, CHR 0x8D, CHR 0xAE,
      CHR 0xE5, CHR 0xBA, CHR 0x93] @
     '': ''"

definition txt_s3_config :: string where
  \<comment> \<open>line 147: 'S3 configuration: bucket='\<close>
  "txt_s3_config =
     ''S3 '' @
     [CHR 0xE9, CHR 0x85, CHR 0x8D, CHR 0xE7, CHR 0xBD, CHR 0xAE] @
     '': bucket=''"

definition txt_none_prefix :: string where
  \<comment> \<open>line 147: '(none)'\<close>
  "txt_none_prefix =
     ''('' @
     [CHR 0xE6, CHR 0x97, CHR 0xA0] @
     '')''"

definition txt_run_pg_dump :: string where
  \<comment> \<open>line 168: 'Running pg_dump...'\<close>
  "txt_run_pg_dump =
     [CHR 0xE6, CHR 0x89, CHR 0xA7, CHR 0xE8, CHR 0xA1, CHR 0x8C] @
     '' pg_dump...''"

definition txt_pg_dump_failed :: string where
  \<comment> \<open>line 178: 'pg_dump failed: '\<close>
  "txt_pg_dump_failed =
     ''pg_dump '' @
     [CHR 0xE5, CHR 0xA4, CHR 0xB1, CHR 0xE8, CHR 0xB4, CHR 0xA5] @
     '': ''"

definition txt_subject_failed :: string where
  \<comment> \<open>lines 182, 247: 'RDS backup failed - '\<close>
  "txt_subject_failed =
     ''RDS '' @
     [CHR 0xE5, CHR 0xA4, CHR 0x87, CHR 0xE4, CHR 0xBB, CHR 0xBD, CHR 0xE5, CHR 0xA4, CHR 0xB1,
      CHR 0xE8, CHR 0xB4, CHR 0xA5] @
     '' - ''"

definition txt_failed_at :: string where
  \<comment> \<open>lines 183, 248: 'Backup failed at '\<close>
  "txt_failed_at =
     [CHR 0xE5, CHR 0xA4, CHR 0x87, CHR 0xE4, CHR 0xBB, CHR 0xBD, CHR 0xE5, CHR 0xA4, CHR 0xB1,
      CHR 0xE8, CHR 0xB4, CHR 0xA5, CHR 0xE4, CHR 0xBA, CHR 0x8E] @
     '' ''"

definition txt_error :: string where
  \<comment> \<open>lines 183, 248: 'Error: '\<close>
  "txt_error =
     [CHR 0xE9, CHR 0x94, CHR 0x99, CHR 0xE8, CHR 0xAF, CHR 0xAF] @
     '': ''"

definition txt_stdout :: string where
  \<comment> \<open>line 183: 'Standard output: '\<close>
  "txt_stdout =
     [CHR 0xE6, CHR 0xA0, CHR 0x87, CHR 0xE5, CHR 0x87, CHR 0x86, CHR 0xE8, CHR 0xBE, CHR 0x93,
      CHR 0xE5, CHR 0x87, CHR 0xBA] @
     '': ''"

definition txt_pg_dump_ok :: string where
  \<comment> \<open>line 187: 'pg_dump succeeded'\<close>
  "txt_pg_dump_ok =
     ''pg_dump '' @
     [CHR 0xE6, CHR 0x89, CHR 0xA7, CHR 0xE8, CHR 0xA1, CHR 0x8C, CHR 0xE6, CHR 0x88, CHR 0x90,
      CHR 0xE5, CHR 0x8A, CHR 0x9F]"

definition txt_uploading :: string where
  \<comment> \<open>line 190: 'Uploading backup to S3: s3://'\<close>
  "txt_uploading =
     [CHR 0xE4, CHR 0xB8, CHR 0x8A, CHR 0xE4, CHR 0xBC, CHR 0xA0, CHR 0xE5, CHR 0xA4, CHR 0x87,
      CHR 0xE4, CHR 0xBB, CHR 0xBD, CHR 0xE5, CHR 0x88, CHR 0xB0] @
     '' S3: s3://''"

definition txt_subject_upload_failed :: string where
  \<comment> \<open>line 195: 'RDS backup upload failed - '\<close>
  "txt_subject_upload_failed =
     ''RDS '' @
     [CHR 0xE5, CHR 0xA4, CHR 0x87, CHR 0xE4, CHR 0xBB, CHR 0xBD, CHR 0xE4, CHR 0xB8, CHR 0x8A,
      CHR 0xE4, CHR 0xBC, CHR 0xA0, CHR 0xE5, CHR 0xA4, CHR 0xB1, CHR 0xE8, CHR 0xB4, CHR 0xA5] @
     '' - ''"

definition txt_dump_ok_upload_failed :: string where
  \<comment> \<open>line 196: 'Backup file created successfully, but the S3 upload failed at '\<close>
  "txt_dump_ok_upload_failed =
     [CHR 0xE5, CHR 0xA4, CHR 0x87, CHR 0xE4, CHR 0xBB, CHR 0xBD, CHR 0xE6, CHR 0x96, CHR 0x87,
      CHR 0xE4, CHR 0xBB, CHR 0xB6, CHR 0xE7, CHR 0x94, CHR 0x9F, CHR 0xE6, CHR 0x88, CHR 0x90,
      CHR 0xE6, CHR 0x88, CHR 0x90, CHR 0xE5, CHR 0x8A, CHR 0x9F, CHR 0xEF, CHR 0xBC, CHR 0x8C,
      CHR 0xE4, CHR 0xBD, CHR 0x86] @
     '' S3 '' @
     [CHR 0xE4, CHR 0xB8, CHR 0x8A, CHR 0xE4, CHR 0xBC, CHR 0xA0, CHR 0xE5, CHR 0xA4, CHR 0xB1,
      CHR 0xE8, CHR 0xB4, CHR 0xA5, CHR 0xE4, CHR 0xBA, CHR 0x8E] @
     '' ''"

definition txt_success_head :: string where
  \<comment> \<open>line 209: 'RDS backup completed successfully'\<close>
  "txt_success_head =
     ''RDS '' @
     [CHR 0xE5, CHR 0xA4, CHR 0x87, CHR 0xE4, CHR 0xBB, CHR 0xBD, CHR 0xE6, CHR 0x88, CHR 0x90,
      CHR 0xE5, CHR 0x8A, CHR 0x9F, CHR 0xE5, CHR 0xAE, CHR 0x8C, CHR 0xE6, CHR 0x88, CHR 0x90]"

definition txt_database :: string where
  \<comment> \<open>line 211: 'Database: '\<close>
  "txt_database =
     [CHR 0xE6, CHR 0x95, CHR 0xB0, CHR 0xE6, CHR 0x8D, CHR 0xAE, CHR 0xE5, CHR 0xBA, CHR 0x93] @
     '': ''"

definition txt_host :: string where
  \<comment> \<open>line 212: 'Host: '\<close>
  "txt_host =
     [CHR 0xE4, CHR 0xB8, CHR 0xBB, CHR 0xE6, CHR 0x9C, CHR 0xBA] @
     '': ''"

definition txt_time :: string where
  \<comment> \<open>line 213: 'Time: '\<close>
  "txt_time =
     [CHR 0xE6, CHR 0x97, CHR 0xB6, CHR 0xE9, CHR 0x97, CHR 0xB4] @
     '': ''"

definition txt_s3_location :: string where
  \<comment> \<open>line 214: 'S3 location: s3://'\<close>
  "txt_s3_location =
     ''S3 '' @
     [CHR 0xE4, CHR 0xBD, CHR 0x8D, CHR 0xE7, CHR 0xBD, CHR 0xAE] @
     '': s3://''"

definition txt_file_size :: string where
  \<comment> \<open>line 215: 'File size: '\<close>
  "txt_file_size =
     [CHR 0xE6, CHR 0x96, CHR 0x87, CHR 0xE4, CHR 0xBB, CHR 0xB6, CHR 0xE5, CHR 0xA4, CHR 0xA7,
      CHR 0xE5, CHR 0xB0, CHR 0x8F] @
     '': ''"

definition txt_subject_success :: string where
  \<comment> \<open>line 219: 'RDS backup succeeded - '\<close>
  "txt_subject_success =
     ''RDS '' @
     [CHR 0xE5, CHR 0xA4, CHR 0x87, CHR 0xE4, CHR 0xBB, CHR 0xBD, CHR 0xE6, CHR 0x88, CHR 0x90,
      CHR 0xE5, CHR 0x8A, CHR 0x9F] @
     '' - ''"

definition txt_cleaned :: string where
  \<comment> \<open>line 226: 'Local backup file removed'\<close>
  "txt_cleaned =
     [CHR 0xE5, CHR 0xB7, CHR 0xB2, CHR 0xE6, CHR 0xB8, CHR 0x85, CHR 0xE7, CHR 0x90, CHR 0x86,
      CHR 0xE6, CHR 0x9C, CHR 0xAC, CHR 0xE5, CHR 0x9C, CHR 0xB0, CHR 0xE5, CHR 0xA4, CHR 0x87,
      CHR 0xE4, CHR 0xBB, CHR 0xBD, CHR 0xE6, CHR 0x96, CHR 0x87, CHR 0xE4, CHR 0xBB, CHR 0xB6]"

definition txt_cleanup_failed :: string where
  \<comment> \<open>line 228: 'Removing the local file failed: '\<close>
  "txt_cleanup_failed =
     [CHR 0xE6, CHR 0xB8, CHR 0x85, CHR 0xE7, CHR 0x90, CHR 0x86, CHR 0xE6, CHR 0x9C, CHR 0xAC,
      CHR 0xE5, CHR 0x9C, CHR 0xB0, CHR 0xE6, CHR 0x96, CHR 0x87, CHR 0xE4, CHR 0xBB, CHR 0xB6,
      CHR 0xE5, CHR 0xA4, CHR 0xB1, CHR 0xE8, CHR 0xB4, CHR 0xA5] @
     '': ''"

definition txt_done :: string where
  \<comment> \<open>line 230: 'Backup finished'\<close>
  "txt_done =
     [CHR 0xE5, CHR 0xA4, CHR 0x87, CHR 0xE4, CHR 0xBB, CHR 0xBD, CHR 0xE5, CHR 0xAE, CHR 0x8C,
      CHR 0xE6, CHR 0x88, CHR 0x90]"

definition txt_timeout :: string where
  \<comment> \<open>line 233: 'Backup timed out (more than 1 hour)'\<close>
  "txt_timeout =
     [CHR 0xE5, CHR 0xA4, CHR 0x87, CHR 0xE4, CHR 0xBB, CHR 0xBD, CHR 0xE8, CHR 0xB6, CHR 0x85,
      CHR 0xE6, CHR 0x97, CHR 0xB6, CHR 0xEF, CHR 0xBC, CHR 0x88, CHR 0xE8, CHR 0xB6, CHR 0x85,
      CHR 0xE8, CHR 0xBF, CHR 0x87] @
     '' 1 '' @
     [CHR 0xE5, CHR 0xB0, CHR 0x8F, CHR 0xE6, CHR 0x97, CHR 0xB6, CHR 0xEF, CHR 0xBC, CHR 0x89]"

definition txt_subject_timeout :: string where
  \<comment> \<open>line 237: 'RDS backup timed out - '\<close>
  "txt_subject_timeout =
     ''RDS '' @
     [CHR 0xE5, CHR 0xA4, CHR 0x87, CHR 0xE4, CHR 0xBB, CHR 0xBD, CHR 0xE8, CHR 0xB6, CHR 0x85,
      CHR 0xE6, CHR 0x97, CHR 0xB6] @
     '' - ''"

definition txt_timeout_at :: string where
  \<comment> \<open>line 238: 'Backup timed out at '\<close>
  "txt_timeout_at =
     [CHR 0xE5, CHR 0xA4, CHR 0x87, CHR 0xE4, CHR 0xBB, CHR 0xBD, CHR 0xE8, CHR 0xB6, CHR 0x85,
      CHR 0xE6, CHR 0x97, CHR 0xB6, CHR 0xE4, CHR 0xBA, CHR 0x8E] @
     '' ''"

definition txt_backup_failed :: string where
  \<comment> \<open>line 244: 'Backup failed: '\<close>
  "txt_backup_failed =
     [CHR 0xE5, CHR 0xA4, CHR 0x87, CHR 0xE4, CHR 0xBB, CHR 0xBD, CHR 0xE5, CHR 0xA4, CHR 0xB1,
      CHR 0xE8, CHR 0xB4, CHR 0xA5] @
     '': ''"

subsection \<open>Values, exceptions, events\<close>

text \<open>Truthiness of a Python value that is a string or \<^verbatim>\<open>None\<close>: \<^verbatim>\<open>not v\<close> holds for
  \<^verbatim>\<open>None\<close> and for the empty string.\<close>

fun truthy :: "string option \<Rightarrow> bool" where
  "truthy None = False"
| "truthy (Some s) = (s \<noteq> [])"

text \<open>Formatting inside an f-string: \<^verbatim>\<open>None\<close> prints as \<^verbatim>\<open>None\<close>.\<close>

fun fmt :: "string option \<Rightarrow> string" where
  "fmt None = ''None''"
| "fmt (Some s) = s"

text \<open>
  The exceptions the script distinguishes, all subclasses of \<^verbatim>\<open>Exception\<close>; each carries the
  text \<^verbatim>\<open>str(e)\<close>. \<^verbatim>\<open>SystemExit\<close>, raised by \<^verbatim>\<open>sys.exit\<close>, derives from \<^verbatim>\<open>BaseException\<close>
  only, so \<^verbatim>\<open>except Exception\<close> does not catch it.
\<close>

datatype exception =
    NoCredentialsError string
  | ClientError string
  | TimeoutExpired string
  | OtherException string

fun str_exc :: "exception \<Rightarrow> string" where
  "str_exc (NoCredentialsError m) = m"
| "str_exc (ClientError m) = m"
| "str_exc (TimeoutExpired m) = m"
| "str_exc (OtherException m) = m"

datatype raised = Exception exception | SystemExit int

datatype level = INFO | WARNING | ERROR

text \<open>
  A metric value is the integer \<^verbatim>\<open>1\<close> or the float \<^verbatim>\<open>file_size / (1024 * 1024)\<close>. The float
  is modelled by the exact quotient: Python's true division of integers is correctly
  rounded, and a quotient by \<open>2^20\<close> of a size below \<open>2^53\<close> is a binary64 number, so the two
  coincide for every file smaller than 8 PiB.
\<close>

datatype number = PyInt int | PyFloat rat

record metric_datum =
  MetricName :: string
  Value :: number
  Unit :: string
  Dimensions :: "(string \<times> string option) list"

record completed_process =
  returncode :: int
  stdout :: string
  stderr :: string

text \<open>
  What a run does to the outside: the log records it writes and the calls it makes to the
  dump tool, the file system and the AWS clients, in program order.
\<close>

datatype event =
    Log level string
  | PutMetricData string metric_datum
      \<comment> \<open>\<^verbatim>\<open>cloudwatch.put_metric_data(Namespace, MetricData=[datum])\<close>\<close>
  | Publish string string string
      \<comment> \<open>\<^verbatim>\<open>sns_client.publish(TopicArn, Subject, Message)\<close>\<close>
  | SubprocessRun "string option list" "string \<Rightarrow> string option" nat
      \<comment> \<open>\<^verbatim>\<open>subprocess.run(args, env=env, capture_output=True, text=True, timeout=t)\<close>\<close>
  | UploadFile string string string
      \<comment> \<open>\<^verbatim>\<open>s3_client.upload_file(file_path, bucket, key)\<close>\<close>
  | GetSize string
  | Remove string

subsection \<open>The environment of a run\<close>

text \<open>
  A reading of \<^verbatim>\<open>datetime.utcnow()\<close>, to the second. The fields are those of a Python
  \<^verbatim>\<open>datetime\<close>: the year has at most four digits, the other fields at most two.
\<close>

record utc =
  year :: nat
  month :: nat
  day :: nat
  hour :: nat
  minute :: nat
  second :: nat

text \<open>
  Everything the script reads from outside. The process environment; the successive
  readings of the clock (\<open>utcnow w k\<close> is the result of the \<open>k\<close>-th call of
  \<^verbatim>\<open>datetime.utcnow()\<close>, counted from 0); and, for each external call, what it returns or
  raises. The external calls fail with subclasses of \<^verbatim>\<open>Exception\<close>. Creating the three boto3
  clients at import time is taken to succeed.
\<close>

record world =
  environ :: "string \<Rightarrow> string option"
  utcnow :: "nat \<Rightarrow> utc"
  subprocess_run :: "string option list \<Rightarrow> (string \<Rightarrow> string option) \<Rightarrow> nat
                       \<Rightarrow> exception + completed_process"
  upload_file :: "string \<Rightarrow> string \<Rightarrow> string \<Rightarrow> exception + unit"
  getsize :: "string \<Rightarrow> exception + nat"
  remove_file :: "string \<Rightarrow> exception + unit"
  put_metric_data :: "string \<Rightarrow> metric_datum \<Rightarrow> exception + unit"
  publish :: "string \<Rightarrow> string \<Rightarrow> string \<Rightarrow> exception + unit"

subsection \<open>Statements: results, exceptions and the trace\<close>

text \<open>
  A statement returns a value or raises, and leaves the events it caused.
\<close>

type_synonym 'a prog = "(raised + 'a) \<times> event list"

definition ret :: "'a \<Rightarrow> 'a prog" where
  "ret x = (Inr x, [])"

definition log :: "level \<Rightarrow> string \<Rightarrow> unit prog" where
  "log l m = (Inr (), [Log l m])"

definition sys_exit :: "int \<Rightarrow> 'a prog" where
  "sys_exit n = (Inl (SystemExit n), [])"

text \<open>An external call: it is recorded, and its exception, if any, is raised.\<close>

definition call :: "event \<Rightarrow> exception + 'a \<Rightarrow> 'a prog" where
  "call ev r = (case r of Inl e \<Rightarrow> (Inl (Exception e), [ev]) | Inr x \<Rightarrow> (Inr x, [ev]))"

text \<open>\<open>x = m; k x\<close>: when \<open>m\<close> raises, the rest is skipped.\<close>

definition pbind :: "'a prog \<Rightarrow> ('a \<Rightarrow> 'b prog) \<Rightarrow> 'b prog" where
  "pbind m k =
     (case m of
        (Inl e, tr) \<Rightarrow> (Inl e, tr)
      | (Inr x, tr) \<Rightarrow> (case k x of (r, tr') \<Rightarrow> (r, tr @ tr')))"

definition pseq :: "unit prog \<Rightarrow> 'b prog \<Rightarrow> 'b prog" where
  "pseq m k = pbind m (\<lambda>_. k)"

text \<open>A block of statements, run in order up to the first that raises.\<close>

fun block :: "unit prog list \<Rightarrow> unit prog" where
  "block [] = ret ()"
| "block (m # ms) = pseq m (block ms)"

text \<open>
  \<^verbatim>\<open>try: m  except ...: h e\<close>, where the handler \<open>h\<close> selects the clause by the class of the
  exception. Every \<^verbatim>\<open>try\<close> of the script ends in \<^verbatim>\<open>except Exception\<close>, so every \<open>Exception\<close> is
  caught; \<^verbatim>\<open>SystemExit\<close> passes through. An exception raised by the handler itself is not
  caught again.
\<close>

definition try_except :: "'a prog \<Rightarrow> (exception \<Rightarrow> 'a prog) \<Rightarrow> 'a prog" where
  "try_except m h =
     (case m of
        (Inl (Exception e), tr) \<Rightarrow> (case h e of (r, tr') \<Rightarrow> (r, tr @ tr'))
      | (Inl (SystemExit n), tr) \<Rightarrow> (Inl (SystemExit n), tr)
      | (Inr x, tr) \<Rightarrow> (Inr x, tr))"

subsection \<open>Module-level configuration (lines 24 to 47)\<close>

definition environ_get :: "(string \<Rightarrow> string option) \<Rightarrow> string \<Rightarrow> string \<Rightarrow> string" where
  \<comment> \<open>\<^verbatim>\<open>os.environ.get(key, default)\<close>\<close>
  "environ_get env key dflt = (case env key of None \<Rightarrow> dflt | Some v \<Rightarrow> v)"

text \<open>\<^verbatim>\<open>s.split('/', 1)\<close> for an \<open>s\<close> that contains \<^verbatim>\<open>/\<close>: the parts before and after the
  first \<^verbatim>\<open>/\<close>.\<close>

definition split_once :: "string \<Rightarrow> string \<times> string" where
  "split_once s = (takeWhile (\<lambda>c. c \<noteq> CHR ''/'') s, tl (dropWhile (\<lambda>c. c \<noteq> CHR ''/'') s))"

text \<open>\<^verbatim>\<open>s.rstrip('/')\<close>\<close>

definition rstrip_slash :: "string \<Rightarrow> string" where
  "rstrip_slash s = rev (dropWhile (\<lambda>c. c = CHR ''/'') (rev s))"

text \<open>Lines 37 to 47: the bucket name and the key prefix, from the raw setting.\<close>

definition parse_s3_bucket :: "string \<Rightarrow> string \<times> string" where
  "parse_s3_bucket raw =
     (if raw \<noteq> [] then
        if CHR ''/'' \<in> set raw then
          (let parts = split_once raw
           in (fst parts, if snd parts \<noteq> [] then rstrip_slash (snd parts) @ ''/'' else []))
        else (raw, [])
      else ([], []))"

record config =
  RDS_HOST :: "string option"
  RDS_PORT :: string
  RDS_DB_NAME :: "string option"
  RDS_USERNAME :: "string option"
  RDS_PASSWORD :: "string option"
  S3_BUCKET_RAW :: string
  SNS_TOPIC_ARN :: string
  CLOUDWATCH_NAMESPACE :: string
  AWS_REGION :: string
  S3_BUCKET :: string
  S3_PREFIX :: string

text \<open>\<^verbatim>\<open>a or b\<close> on values that are strings or \<^verbatim>\<open>None\<close>.\<close>

definition py_or :: "string option \<Rightarrow> string option \<Rightarrow> string option" where
  "py_or a b = (if truthy a then a else b)"

definition load_config :: "(string \<Rightarrow> string option) \<Rightarrow> config" where
  "load_config env =
     (let raw = environ_get env ''S3_BUCKET'' [] in
      \<lparr> RDS_HOST = env ''RDS_HOST'',
        RDS_PORT = environ_get env ''RDS_PORT'' ''5432'',
        RDS_DB_NAME = env ''RDS_DB_NAME'',
        RDS_USERNAME = env ''RDS_USERNAME'',
        RDS_PASSWORD = env ''RDS_PASSWORD'',
        S3_BUCKET_RAW = raw,
        SNS_TOPIC_ARN = environ_get env ''SNS_TOPIC_ARN'' [],
        CLOUDWATCH_NAMESPACE = environ_get env ''CLOUDWATCH_NAMESPACE'' ''RDS/Backup'',
        AWS_REGION = fmt (py_or (py_or (env ''AWS_REGION'') (env ''AWS_DEFAULT_REGION''))
                            (Some ''ap-northeast-1'')),
        S3_BUCKET = fst (parse_s3_bucket raw),
        S3_PREFIX = snd (parse_s3_bucket raw) \<rparr>)"

subsection \<open>Publishing metrics and notifications (lines 54 to 99)\<close>

definition send_cloudwatch_metric ::
  "world \<Rightarrow> config \<Rightarrow> string \<Rightarrow> number \<Rightarrow> string \<Rightarrow> string \<Rightarrow> unit prog" where
  "send_cloudwatch_metric w c metric_name val unit status =
     (let datum = \<lparr> MetricName = metric_name, Value = val, Unit = unit,
                    Dimensions = [(''Database'', RDS_DB_NAME c), (''Status'', Some status)] \<rparr>
      in try_except
           (call (PutMetricData (CLOUDWATCH_NAMESPACE c) datum)
                 (put_metric_data w (CLOUDWATCH_NAMESPACE c) datum))
           (\<lambda>e. case e of
                   NoCredentialsError _ \<Rightarrow> log WARNING (txt_metric_failed @ txt_no_credentials)
                 | _ \<Rightarrow> log WARNING (txt_metric_failed @ str_exc e)))"

definition send_sns_notification :: "world \<Rightarrow> config \<Rightarrow> string \<Rightarrow> string \<Rightarrow> unit prog" where
  "send_sns_notification w c subject message =
     (if SNS_TOPIC_ARN c = [] then ret ()
      else try_except
             (pseq (call (Publish (SNS_TOPIC_ARN c) subject message)
                         (publish w (SNS_TOPIC_ARN c) subject message))
                   (log INFO (txt_sns_sent @ subject)))
             (\<lambda>e. case e of
                     NoCredentialsError _ \<Rightarrow> log WARNING (txt_sns_failed @ txt_no_credentials)
                   | _ \<Rightarrow> log ERROR (txt_sns_failed @ str_exc e)))"

subsection \<open>Upload (lines 101 to 115)\<close>

definition upload_to_s3 :: "world \<Rightarrow> string \<Rightarrow> string \<Rightarrow> string \<Rightarrow> bool prog" where
  "upload_to_s3 w file_path bucket key =
     try_except
       (pseq (call (UploadFile file_path bucket key) (upload_file w file_path bucket key))
             (pseq (log INFO (txt_upload_ok @ bucket @ ''/'' @ key)) (ret True)))
       (\<lambda>e. case e of
               NoCredentialsError _ \<Rightarrow>
                 pseq (log ERROR (txt_upload_failed @ '': '' @ txt_no_credentials)) (ret False)
             | _ \<Rightarrow> pseq (log ERROR (txt_upload_failed @ '': '' @ str_exc e)) (ret False))"

subsection \<open>Formatting times and sizes\<close>

definition digit_char :: "nat \<Rightarrow> char" where
  "digit_char d = ''0123456789'' ! (d mod 10)"

definition two_digits :: "nat \<Rightarrow> string" where
  "two_digits n = [digit_char (n div 10), digit_char n]"

definition four_digits :: "nat \<Rightarrow> string" where
  "four_digits n = [digit_char (n div 1000), digit_char (n div 100), digit_char (n div 10),
                    digit_char n]"

text \<open>\<^verbatim>\<open>strftime('%Y-%m-%d-%H%M%S')\<close> and \<^verbatim>\<open>strftime('%Y/%m/%d')\<close>\<close>

definition strftime_stamp :: "utc \<Rightarrow> string" where
  "strftime_stamp t =
     four_digits (year t) @ ''-'' @ two_digits (month t) @ ''-'' @ two_digits (day t) @ ''-'' @
     two_digits (hour t) @ two_digits (minute t) @ two_digits (second t)"

definition strftime_date_path :: "utc \<Rightarrow> string" where
  "strftime_date_path t =
     four_digits (year t) @ ''/'' @ two_digits (month t) @ ''/'' @ two_digits (day t)"

text \<open>The decimal digits of a natural number.\<close>

fun str_nat :: "nat \<Rightarrow> string" where
  "str_nat n = (if n < 10 then [digit_char n] else str_nat (n div 10) @ [digit_char n])"

declare str_nat.simps [simp del]

text \<open>
  \<^verbatim>\<open>f"{x:.2f}"\<close> for a non-negative \<open>x\<close>: the value rounded to hundredths, a tie going to the
  even neighbour.
\<close>

definition round_half_even :: "rat \<Rightarrow> nat" where
  "round_half_even x =
     (let f = nat \<lfloor>x\<rfloor>; r = x - of_nat f
      in if r < 1 / 2 then f else if 1 / 2 < r then f + 1 else if even f then f else f + 1)"

definition format_2f :: "rat \<Rightarrow> string" where
  "format_2f x =
     (let h = round_half_even (x * 100)
      in str_nat (h div 100) @ ''.'' @ two_digits (h mod 100))"

subsection \<open>The artifact's name and key (lines 136 to 144)\<close>

definition backup_filename :: "string option \<Rightarrow> string \<Rightarrow> string" where
  "backup_filename db_name timestamp = ''backup-'' @ fmt db_name @ ''-'' @ timestamp @ ''.dump''"

definition s3_key_of :: "string \<Rightarrow> string \<Rightarrow> string \<Rightarrow> string" where
  "s3_key_of pfx date_path filename =
     (if pfx \<noteq> [] then pfx @ date_path @ ''/'' @ filename
      else ''backups/'' @ date_path @ ''/'' @ filename)"

definition pg_dump_command :: "config \<Rightarrow> string \<Rightarrow> string option list" where
  "pg_dump_command c local_file_path =
     [Some ''pg_dump'',
      Some ''-h'', RDS_HOST c,
      Some ''-p'', Some (RDS_PORT c),
      Some ''-U'', RDS_USERNAME c,
      Some ''-d'', RDS_DB_NAME c,
      Some ''-F'', Some ''c'',
      Some ''-f'', Some local_file_path,
      Some ''--no-owner'',
      Some ''--no-acl'',
      Some ''--verbose'']"

subsection \<open>main (lines 117 to 250)\<close>

definition required_vars :: "config \<Rightarrow> (string \<times> string option) list" where
  "required_vars c =
     [(''RDS_HOST'', RDS_HOST c),
      (''RDS_DB_NAME'', RDS_DB_NAME c),
      (''RDS_USERNAME'', RDS_USERNAME c),
      (''RDS_PASSWORD'', RDS_PASSWORD c),
      (''S3_BUCKET'', Some (S3_BUCKET c))]"

definition missing_vars :: "config \<Rightarrow> string list" where
  "missing_vars c = map fst (filter (\<lambda>kv. \<not> truthy (snd kv)) (required_vars c))"

text \<open>\<^verbatim>\<open>', '.join(xs)\<close>\<close>

fun join_comma :: "string list \<Rightarrow> string" where
  "join_comma [] = []"
| "join_comma [x] = x"
| "join_comma (x # y # ys) = x @ '', '' @ join_comma (y # ys)"

definition success_message :: "config \<Rightarrow> string \<Rightarrow> string \<Rightarrow> rat \<Rightarrow> string" where
  "success_message c timestamp s3_key size_mb =
     txt_success_head @ [CHR 0x0A, CHR 0x0A] @
     txt_database @ fmt (RDS_DB_NAME c) @ [CHR 0x0A] @
     txt_host @ fmt (RDS_HOST c) @ [CHR 0x0A] @
     txt_time @ timestamp @ [CHR 0x0A] @
     txt_s3_location @ S3_BUCKET c @ ''/'' @ s3_key @ [CHR 0x0A] @
     txt_file_size @ format_2f size_mb @ '' MB'' @ [CHR 0x0A]"

text \<open>Line 202: the size in megabytes.\<close>

definition file_size_mb :: "nat \<Rightarrow> rat" where
  "file_size_mb file_size = of_nat file_size / (1024 * 1024)"

text \<open>Lines 200 to 230: after a successful upload.\<close>

definition after_upload :: "world \<Rightarrow> config \<Rightarrow> string \<Rightarrow> string \<Rightarrow> string \<Rightarrow> unit prog" where
  "after_upload w c timestamp local_file_path s3_key =
     pbind (call (GetSize local_file_path) (getsize w local_file_path)) (\<lambda>file_size.
       let size_mb = file_size_mb file_size in
       block [
         send_cloudwatch_metric w c ''BackupSuccess'' (PyInt 1) ''Count'' ''Success'',
         send_cloudwatch_metric w c ''BackupSize'' (PyFloat size_mb) ''Megabytes'' ''Success'',
         log INFO (success_message c timestamp s3_key size_mb),
         send_sns_notification w c (txt_subject_success @ fmt (RDS_DB_NAME c))
           (success_message c timestamp s3_key size_mb),
         try_except
           (pseq (call (Remove local_file_path) (remove_file w local_file_path))
                 (log INFO txt_cleaned))
           (\<lambda>e. log WARNING (txt_cleanup_failed @ str_exc e)),
         log INFO txt_done])"

text \<open>Lines 136 to 230: the body of the \<^verbatim>\<open>try\<close>. The clock is read at line 136 and again at
  line 140.\<close>

definition main_try :: "world \<Rightarrow> config \<Rightarrow> unit prog" where
  "main_try w c =
     (let timestamp = strftime_stamp (utcnow w 0);
          filename = backup_filename (RDS_DB_NAME c) timestamp;
          local_file_path = ''/tmp/'' @ filename;
          date_path = strftime_date_path (utcnow w 1);
          s3_key = s3_key_of (S3_PREFIX c) date_path filename;
          env = (environ w)(''PGPASSWORD'' := RDS_PASSWORD c);
          cmd = pg_dump_command c local_file_path
      in
      pseq (log INFO (txt_start_backup @ fmt (RDS_DB_NAME c) @ '' @ '' @ fmt (RDS_HOST c)))
     (pseq (log INFO (txt_s3_config @ S3_BUCKET c @ '', prefix='' @
                        (if S3_PREFIX c \<noteq> [] then S3_PREFIX c else txt_none_prefix) @
                        '', key='' @ s3_key))
     (pseq (log INFO txt_run_pg_dump)
     (pbind (call (SubprocessRun cmd env 3600) (subprocess_run w cmd env 3600)) (\<lambda>result.
        if returncode result \<noteq> 0 then
          (let error_msg = txt_pg_dump_failed @ stderr result in
           block [
             log ERROR error_msg,
             send_cloudwatch_metric w c ''BackupFailure'' (PyInt 1) ''Count'' ''Failed'',
             send_sns_notification w c (txt_subject_failed @ fmt (RDS_DB_NAME c))
               (txt_failed_at @ timestamp @ [CHR 0x0A, CHR 0x0A] @ txt_error @ error_msg @
                [CHR 0x0A, CHR 0x0A] @ txt_stdout @ stdout result),
             sys_exit 1])
        else
          pseq (log INFO txt_pg_dump_ok)
         (pseq (log INFO (txt_uploading @ S3_BUCKET c @ ''/'' @ s3_key))
         (pbind (upload_to_s3 w local_file_path (S3_BUCKET c) s3_key) (\<lambda>uploaded.
            if \<not> uploaded then
              block [
                send_cloudwatch_metric w c ''BackupFailure'' (PyInt 1) ''Count'' ''Failed'',
                send_sns_notification w c (txt_subject_upload_failed @ fmt (RDS_DB_NAME c))
                  (txt_dump_ok_upload_failed @ timestamp @ [CHR 0x0A, CHR 0x0A] @
                   ''S3 Key: '' @ s3_key),
                sys_exit 1]
            else after_upload w c timestamp local_file_path s3_key))))))))"

text \<open>Lines 232 to 250: the two \<^verbatim>\<open>except\<close> clauses of \<^verbatim>\<open>main\<close>. Both read the clock once more;
  the body has read it twice before anything in it can raise.\<close>

definition main_except :: "world \<Rightarrow> config \<Rightarrow> exception \<Rightarrow> unit prog" where
  "main_except w c e =
     (case e of
        TimeoutExpired _ \<Rightarrow>
          block [
            log ERROR txt_timeout,
            send_cloudwatch_metric w c ''BackupFailure'' (PyInt 1) ''Count'' ''Failed'',
            send_sns_notification w c (txt_subject_timeout @ fmt (RDS_DB_NAME c))
              (txt_timeout_at @ strftime_stamp (utcnow w 2) @ [CHR 0x0A, CHR 0x0A] @ txt_timeout),
            sys_exit 1]
      | _ \<Rightarrow>
          block [
            log ERROR (txt_backup_failed @ str_exc e),
            send_cloudwatch_metric w c ''BackupFailure'' (PyInt 1) ''Count'' ''Failed'',
            send_sns_notification w c (txt_subject_failed @ fmt (RDS_DB_NAME c))
              (txt_failed_at @ strftime_stamp (utcnow w 2) @ [CHR 0x0A, CHR 0x0A] @
               txt_error @ str_exc e),
            sys_exit 1])"

definition main :: "world \<Rightarrow> unit prog" where
  "main w =
     (let c = load_config (environ w) in
      if missing_vars c \<noteq> [] then
        block [
          log ERROR (txt_missing_env @ join_comma (missing_vars c)),
          send_cloudwatch_metric w c ''BackupFailure'' (PyInt 1) ''Count'' ''Failed'',
          sys_exit 1]
      else try_except (main_try w c) (main_except w c))"

text \<open>
  The exit status of the process: 0 when \<^verbatim>\<open>main\<close> returns, the argument of \<^verbatim>\<open>sys.exit\<close> when
  it was called, 1 when an exception reaches the top level.
\<close>

definition exit_code :: "unit prog \<Rightarrow> int" where
  "exit_code p =
     (case fst p of
        Inr _ \<Rightarrow> 0
      | Inl (SystemExit n) \<Rightarrow> n
      | Inl (Exception _) \<Rightarrow> 1)"

definition trace :: "'a prog \<Rightarrow> event list" where
  "trace p = snd p"

subsection \<open>The values of one run\<close>

text \<open>
  The names \<^verbatim>\<open>main\<close> binds locally, as functions of the world, so that statements about a
  run can refer to them.
\<close>

definition run_config :: "world \<Rightarrow> config" where
  "run_config w = load_config (environ w)"

definition run_timestamp :: "world \<Rightarrow> string" where
  "run_timestamp w = strftime_stamp (utcnow w 0)"

definition run_filename :: "world \<Rightarrow> string" where
  "run_filename w = backup_filename (RDS_DB_NAME (run_config w)) (run_timestamp w)"

definition run_local_path :: "world \<Rightarrow> string" where
  "run_local_path w = ''/tmp/'' @ run_filename w"

definition run_s3_key :: "world \<Rightarrow> string" where
  "run_s3_key w =
     s3_key_of (S3_PREFIX (run_config w)) (strftime_date_path (utcnow w 1)) (run_filename w)"

definition child_env :: "world \<Rightarrow> string \<Rightarrow> string option" where
  "child_env w = (environ w)(''PGPASSWORD'' := RDS_PASSWORD (run_config w))"

definition child_argv :: "world \<Rightarrow> string option list" where
  "child_argv w = pg_dump_command (run_config w) (run_local_path w)"

text \<open>What the external calls of the run answer.\<close>

definition dump_result :: "world \<Rightarrow> exception + completed_process" where
  "dump_result w = subprocess_run w (child_argv w) (child_env w) 3600"

definition upload_result :: "world \<Rightarrow> exception + unit" where
  "upload_result w =
     upload_file w (run_local_path w) (S3_BUCKET (run_config w)) (run_s3_key w)"

definition size_result :: "world \<Rightarrow> exception + nat" where
  "size_result w = getsize w (run_local_path w)"

definition remove_result :: "world \<Rightarrow> exception + unit" where
  "remove_result w = remove_file w (run_local_path w)"

subsection \<open>Reading a trace\<close>

definition is_call :: "event \<Rightarrow> bool" where
  "is_call ev = (case ev of Log _ _ \<Rightarrow> False | _ \<Rightarrow> True)"

text \<open>The external calls of a trace, in order, without the log records.\<close>

definition calls :: "event list \<Rightarrow> event list" where
  "calls tr = filter is_call tr"

text \<open>The messages logged at a level.\<close>

fun logged :: "level \<Rightarrow> event list \<Rightarrow> string list" where
  "logged l [] = []"
| "logged l (Log l' m # tr) = (if l' = l then m # logged l tr else logged l tr)"
| "logged l (_ # tr) = logged l tr"

text \<open>The notifications handed to SNS: topic, subject, message.\<close>

fun notifications :: "event list \<Rightarrow> (string \<times> string \<times> string) list" where
  "notifications [] = []"
| "notifications (Publish a s m # tr) = (a, s, m) # notifications tr"
| "notifications (_ # tr) = notifications tr"

text \<open>The metric samples handed to CloudWatch.\<close>

fun metrics :: "event list \<Rightarrow> metric_datum list" where
  "metrics [] = []"
| "metrics (PutMetricData ns d # tr) = d # metrics tr"
| "metrics (_ # tr) = metrics tr"

text \<open>The paths handed to \<^verbatim>\<open>os.remove\<close>.\<close>

fun removals :: "event list \<Rightarrow> string list" where
  "removals [] = []"
| "removals (Remove p # tr) = p # removals tr"
| "removals (_ # tr) = removals tr"

text \<open>The files handed to \<^verbatim>\<open>s3_client.upload_file\<close>: path, bucket, key.\<close>

fun uploads :: "event list \<Rightarrow> (string \<times> string \<times> string) list" where
  "uploads [] = []"
| "uploads (UploadFile p b k # tr) = (p, b, k) # uploads tr"
| "uploads (_ # tr) = uploads tr"

text \<open>The metric sample of a failure (lines 131, 180, 193, 235, 245).\<close>

definition failure_datum :: "config \<Rightarrow> metric_datum" where
  "failure_datum c =
     \<lparr> MetricName = ''BackupFailure'', Value = PyInt 1, Unit = ''Count'',
       Dimensions = [(''Database'', RDS_DB_NAME c), (''Status'', Some ''Failed'')] \<rparr>"

definition failure_metric :: "config \<Rightarrow> event" where
  "failure_metric c = PutMetricData (CLOUDWATCH_NAMESPACE c) (failure_datum c)"

definition success_datum :: "config \<Rightarrow> string \<Rightarrow> number \<Rightarrow> string \<Rightarrow> metric_datum" where
  "success_datum c name val unit =
     \<lparr> MetricName = name, Value = val, Unit = unit,
       Dimensions = [(''Database'', RDS_DB_NAME c), (''Status'', Some ''Success'')] \<rparr>"

text \<open>The notification of a failure: published when a topic is configured, otherwise
  nothing.\<close>

definition failure_notice :: "config \<Rightarrow> string \<Rightarrow> string \<Rightarrow> event list" where
  "failure_notice c subject body =
     (if SNS_TOPIC_ARN c = [] then []
      else [Publish (SNS_TOPIC_ARN c) (subject @ fmt (RDS_DB_NAME c)) body])"

text \<open>The message bodies of lines 183, 196, 238 and 248.\<close>

definition dump_failed_body :: "string \<Rightarrow> completed_process \<Rightarrow> string" where
  "dump_failed_body timestamp r =
     txt_failed_at @ timestamp @ [CHR 0x0A, CHR 0x0A] @ txt_error @
     (txt_pg_dump_failed @ stderr r) @ [CHR 0x0A, CHR 0x0A] @ txt_stdout @ stdout r"

definition upload_failed_body :: "string \<Rightarrow> string \<Rightarrow> string" where
  "upload_failed_body timestamp s3_key =
     txt_dump_ok_upload_failed @ timestamp @ [CHR 0x0A, CHR 0x0A] @ ''S3 Key: '' @ s3_key"

definition timeout_body :: "string \<Rightarrow> string" where
  "timeout_body now = txt_timeout_at @ now @ [CHR 0x0A, CHR 0x0A] @ txt_timeout"

definition exception_body :: "string \<Rightarrow> exception \<Rightarrow> string" where
  "exception_body now e = txt_failed_at @ now @ [CHR 0x0A, CHR 0x0A] @ txt_error @ str_exc e"

definition is_timeout :: "exception \<Rightarrow> bool" where
  "is_timeout e = (case e of TimeoutExpired _ \<Rightarrow> True | _ \<Rightarrow> False)"

definition is_no_credentials :: "exception \<Rightarrow> bool" where
  "is_no_credentials e = (case e of NoCredentialsError _ \<Rightarrow> True | _ \<Rightarrow> False)"

definition except_notice :: "world \<Rightarrow> exception \<Rightarrow> event list" where
  "except_notice w e =
     (if is_timeout e
      then failure_notice (run_config w) txt_subject_timeout
             (timeout_body (strftime_stamp (utcnow w 2)))
      else failure_notice (run_config w) txt_subject_failed
             (exception_body (strftime_stamp (utcnow w 2)) e))"

text \<open>The calls of lines 205 to 225, for an artifact of \<open>n\<close> bytes.\<close>

definition success_calls :: "world \<Rightarrow> nat \<Rightarrow> event list" where
  "success_calls w n =
     [PutMetricData (CLOUDWATCH_NAMESPACE (run_config w))
        (success_datum (run_config w) ''BackupSuccess'' (PyInt 1) ''Count''),
      PutMetricData (CLOUDWATCH_NAMESPACE (run_config w))
        (success_datum (run_config w) ''BackupSize'' (PyFloat (file_size_mb n)) ''Megabytes'')] @
     (if SNS_TOPIC_ARN (run_config w) = [] then []
      else [Publish (SNS_TOPIC_ARN (run_config w))
              (txt_subject_success @ fmt (RDS_DB_NAME (run_config w)))
              (success_message (run_config w) (run_timestamp w) (run_s3_key w)
                 (file_size_mb n))]) @
     [Remove (run_local_path w)]"

text \<open>The names of the required settings, in the order of the dictionary of line 120.\<close>

definition required_keys :: "string list" where
  "required_keys = [''RDS_HOST'', ''RDS_DB_NAME'', ''RDS_USERNAME'', ''RDS_PASSWORD'', ''S3_BUCKET'']"

subsection \<open>Reading decimal numerals\<close>




subsection \<open>Sample runs\<close>

definition sample_environ :: "string \<Rightarrow> string option" where
  "sample_environ =
     [''RDS_HOST'' \<mapsto> ''db.internal'',
      ''RDS_DB_NAME'' \<mapsto> ''appdb'',
      ''RDS_USERNAME'' \<mapsto> ''backup'',
      ''RDS_PASSWORD'' \<mapsto> ''s3cret'',
      ''S3_BUCKET'' \<mapsto> ''mybucket'',
      ''SNS_TOPIC_ARN'' \<mapsto> ''arn:aws:sns:ap-northeast-1:1:ops'']"

definition sample_time :: utc where
  "sample_time = \<lparr> year = 2024, month = 3, day = 7, hour = 4, minute = 5, second = 9 \<rparr>"

text \<open>A run in which everything succeeds and the dump has 1,048,576 bytes.\<close>

definition world_ok :: world where
  "world_ok =
     \<lparr> environ = sample_environ,
       utcnow = (\<lambda>_. sample_time),
       subprocess_run = (\<lambda>_ _ _. Inr \<lparr> returncode = 0, stdout = [], stderr = [] \<rparr>),
       upload_file = (\<lambda>_ _ _. Inr ()),
       getsize = (\<lambda>_. Inr 1048576),
       remove_file = (\<lambda>_. Inr ()),
       put_metric_data = (\<lambda>_ _. Inr ()),
       publish = (\<lambda>_ _ _. Inr ()) \<rparr>"

text \<open>The same, with neither host nor password in the environment.\<close>

definition world_two_missing :: world where
  "world_two_missing =
     world_ok \<lparr> environ := sample_environ(''RDS_HOST'' := None, ''RDS_PASSWORD'' := None) \<rparr>"

text \<open>The dump and the upload succeed, then the size of the local file cannot be read.\<close>

definition world_size_fails :: world where
  "world_size_fails =
     world_ok \<lparr> getsize := (\<lambda>_. Inl (OtherException ''[Errno 2] No such file or directory'')) \<rparr>"

text \<open>The dump tool exits with status 1.\<close>

definition failed_dump :: completed_process where
  "failed_dump = \<lparr> returncode = 1, stdout = [], stderr = ''pg_dump: error: connection failed'' \<rparr>"

definition world_dump_fails :: world where
  "world_dump_fails = world_ok \<lparr> subprocess_run := (\<lambda>_ _ _. Inr failed_dump) \<rparr>"

text \<open>The dump tool runs past the hour.\<close>

definition world_dump_times_out :: world where
  "world_dump_times_out =
     world_ok \<lparr> subprocess_run := (\<lambda>_ _ _. Inl (TimeoutExpired ''timed out after 3600 seconds'')) \<rparr>"

text \<open>The dump tool exits with status 1 and no notification topic is configured.\<close>

definition world_dump_fails_no_topic :: world where
  "world_dump_fails_no_topic =
     world_dump_fails \<lparr> environ := sample_environ(''SNS_TOPIC_ARN'' := None) \<rparr>"

text \<open>The upload is refused.\<close>

definition world_upload_fails :: world where
  "world_upload_fails = world_ok \<lparr> upload_file := (\<lambda>_ _ _. Inl (ClientError ''AccessDenied'')) \<rparr>"

definition world_upload_fails_no_topic :: world where
  "world_upload_fails_no_topic =
     world_upload_fails \<lparr> environ := sample_environ(''SNS_TOPIC_ARN'' := None) \<rparr>"

text \<open>The local file cannot be removed.\<close>

definition world_remove_fails :: world where
  "world_remove_fails =
     world_ok \<lparr> remove_file := (\<lambda>_. Inl (OtherException ''Permission denied'')) \<rparr>"

text \<open>CloudWatch and SNS are unreachable.\<close>

definition world_no_observability :: world where
  "world_no_observability =
     world_ok \<lparr> put_metric_data := (\<lambda>_ _. Inl (NoCredentialsError ''Unable to locate credentials'')),
                publish := (\<lambda>_ _ _. Inl (ClientError ''AuthorizationError'')) \<rparr>"

text \<open>Midnight passes between the clock readings of lines 136 and 140.\<close>

definition world_midnight :: world where
  "world_midnight =
     world_ok \<lparr> utcnow := (\<lambda>k. if k = 0
        then \<lparr> year = 2024, month = 12, day = 31, hour = 23, minute = 59, second = 59 \<rparr>
        else \<lparr> year = 2025, month = 1, day = 1, hour = 0, minute = 0, second = 0 \<rparr>) \<rparr>"

text \<open>Both readings fall in the last second of the year.\<close>

definition world_year_end :: world where
  "world_year_end =
     world_ok \<lparr> utcnow := (\<lambda>_.
        \<lparr> year = 2024, month = 12, day = 31, hour = 23, minute = 59, second = 59 \<rparr>) \<rparr>"

text \<open>The bucket setting is present and empty; the bucket setting starts with the
  separator.\<close>

definition world_empty_bucket :: world where
  "world_empty_bucket = world_ok \<lparr> environ := sample_environ(''S3_BUCKET'' \<mapsto> []) \<rparr>"

definition world_slash_bucket :: world where
  "world_slash_bucket = world_ok \<lparr> environ := sample_environ(''S3_BUCKET'' \<mapsto> ''/foo'') \<rparr>"

section \<open>Properties\<close>

subsection \<open>Results and traces of the statement forms\<close>

lemma fst_pbind: "fst (pbind m k) = (case fst m of Inl e \<Rightarrow> Inl e | Inr x \<Rightarrow> fst (k x))"
  by (cases m; cases "fst m") (auto simp: pbind_def split: prod.splits sum.splits)

lemma snd_pbind:
  "snd (pbind m k) = (case fst m of Inl e \<Rightarrow> snd m | Inr x \<Rightarrow> snd m @ snd (k x))"
  by (cases m; cases "fst m") (auto simp: pbind_def split: prod.splits sum.splits)

lemma fst_pseq: "fst (pseq m k) = (case fst m of Inl e \<Rightarrow> Inl e | Inr x \<Rightarrow> fst k)"
  by (simp add: pseq_def fst_pbind)

lemma snd_pseq: "snd (pseq m k) = (case fst m of Inl e \<Rightarrow> snd m | Inr x \<Rightarrow> snd m @ snd k)"
  by (simp add: pseq_def snd_pbind)

lemma fst_try_except:
  "fst (try_except m h) = (case fst m of Inl (Exception e) \<Rightarrow> fst (h e) | r \<Rightarrow> r)"
  by (cases m; cases "fst m")
     (auto simp: try_except_def split: prod.splits sum.splits raised.splits)

lemma snd_try_except:
  "snd (try_except m h) =
     (case fst m of Inl (Exception e) \<Rightarrow> snd m @ snd (h e) | _ \<Rightarrow> snd m)"
  by (cases m; cases "fst m")
     (auto simp: try_except_def split: prod.splits sum.splits raised.splits)

lemma prog_basic [simp]:
  "fst (ret x) = Inr x" "snd (ret x) = []"
  "fst (log l s) = Inr ()" "snd (log l s) = [Log l s]"
  "fst (sys_exit n) = Inl (SystemExit n)" "snd (sys_exit n) = []"
  "fst (call ev r) = (case r of Inl e \<Rightarrow> Inl (Exception e) | Inr x \<Rightarrow> Inr x)"
  "snd (call ev r) = [ev]"
  by (simp_all add: ret_def log_def sys_exit_def call_def split: sum.splits)

lemma block_simps:
  "fst (block []) = Inr ()" "snd (block []) = []"
  "fst (block (m # ms)) = (case fst m of Inl e \<Rightarrow> Inl e | Inr x \<Rightarrow> fst (block ms))"
  "snd (block (m # ms)) = (case fst m of Inl e \<Rightarrow> snd m | Inr x \<Rightarrow> snd m @ snd (block ms))"
  by (simp_all add: fst_pseq snd_pseq)

lemmas prog_simps = fst_pbind snd_pbind fst_pseq snd_pseq fst_try_except snd_try_except
  block_simps

lemma calls_simps [simp]:
  "calls [] = []"
  "calls (Log l m # tr) = calls tr"
  "calls (PutMetricData ns d # tr) = PutMetricData ns d # calls tr"
  "calls (Publish a s b # tr) = Publish a s b # calls tr"
  "calls (SubprocessRun cmd env t # tr) = SubprocessRun cmd env t # calls tr"
  "calls (UploadFile p b k # tr) = UploadFile p b k # calls tr"
  "calls (GetSize p # tr) = GetSize p # calls tr"
  "calls (Remove p # tr) = Remove p # calls tr"
  "calls (tr @ tr') = calls tr @ calls tr'"
  by (simp_all add: calls_def is_call_def)

lemma logged_append [simp]: "logged l (tr @ tr') = logged l tr @ logged l tr'"
  by (induction l tr rule: logged.induct) simp_all

lemma notifications_calls: "notifications tr = notifications (calls tr)"
  by (induction tr rule: notifications.induct) simp_all

lemma metrics_calls: "metrics tr = metrics (calls tr)"
  by (induction tr rule: metrics.induct) simp_all

lemma removals_calls: "removals tr = removals (calls tr)"
  by (induction tr rule: removals.induct) simp_all

lemma uploads_calls: "uploads tr = uploads (calls tr)"
  by (induction tr rule: uploads.induct) simp_all

lemma uploads_append [simp]: "uploads (tr @ tr') = uploads tr @ uploads tr'"
  by (induction tr rule: uploads.induct) simp_all

lemma notifications_append [simp]:
  "notifications (tr @ tr') = notifications tr @ notifications tr'"
  by (induction tr rule: notifications.induct) simp_all

lemma metrics_append [simp]: "metrics (tr @ tr') = metrics tr @ metrics tr'"
  by (induction tr rule: metrics.induct) simp_all

lemma removals_append [simp]: "removals (tr @ tr') = removals tr @ removals tr'"
  by (induction tr rule: removals.induct) simp_all

subsection \<open>The helper functions\<close>

lemma metric_returns: "fst (send_cloudwatch_metric w c n v u s) = Inr ()"
  by (simp add: send_cloudwatch_metric_def Let_def prog_simps split: sum.splits exception.splits)

lemma metric_calls:
  "calls (snd (send_cloudwatch_metric w c n v u s)) =
     [PutMetricData (CLOUDWATCH_NAMESPACE c)
        \<lparr> MetricName = n, Value = v, Unit = u,
          Dimensions = [(''Database'', RDS_DB_NAME c), (''Status'', Some s)] \<rparr>]"
  by (simp add: send_cloudwatch_metric_def Let_def prog_simps split: sum.splits exception.splits)

lemma metric_logged_error: "logged ERROR (snd (send_cloudwatch_metric w c n v u s)) = []"
  by (simp add: send_cloudwatch_metric_def Let_def prog_simps split: sum.splits exception.splits)

lemma metric_trace:
  "snd (send_cloudwatch_metric w c n v u s) =
     PutMetricData (CLOUDWATCH_NAMESPACE c)
        \<lparr> MetricName = n, Value = v, Unit = u,
          Dimensions = [(''Database'', RDS_DB_NAME c), (''Status'', Some s)] \<rparr> #
     (case put_metric_data w (CLOUDWATCH_NAMESPACE c)
             \<lparr> MetricName = n, Value = v, Unit = u,
               Dimensions = [(''Database'', RDS_DB_NAME c), (''Status'', Some s)] \<rparr> of
        Inr _ \<Rightarrow> []
      | Inl e \<Rightarrow> [Log WARNING (txt_metric_failed @
                     (if is_no_credentials e then txt_no_credentials else str_exc e))])"
  by (simp add: send_cloudwatch_metric_def Let_def prog_simps is_no_credentials_def
         split: sum.splits exception.splits)

lemma notify_returns: "fst (send_sns_notification w c s m) = Inr ()"
  by (simp add: send_sns_notification_def Let_def prog_simps split: sum.splits exception.splits)

lemma notify_calls:
  "calls (snd (send_sns_notification w c s m)) =
     (if SNS_TOPIC_ARN c = [] then [] else [Publish (SNS_TOPIC_ARN c) s m])"
  by (simp add: send_sns_notification_def Let_def prog_simps split: sum.splits exception.splits)

lemma notify_trace:
  "snd (send_sns_notification w c s m) =
     (if SNS_TOPIC_ARN c = [] then []
      else Publish (SNS_TOPIC_ARN c) s m #
        (case publish w (SNS_TOPIC_ARN c) s m of
           Inr _ \<Rightarrow> [Log INFO (txt_sns_sent @ s)]
         | Inl e \<Rightarrow>
             [if is_no_credentials e then Log WARNING (txt_sns_failed @ txt_no_credentials)
              else Log ERROR (txt_sns_failed @ str_exc e)]))"
  by (simp add: send_sns_notification_def Let_def prog_simps is_no_credentials_def
         split: sum.splits exception.splits)

lemma upload_returns:
  "fst (upload_to_s3 w p b k) =
     Inr (case upload_file w p b k of Inl _ \<Rightarrow> False | Inr _ \<Rightarrow> True)"
  by (simp add: upload_to_s3_def prog_simps split: sum.splits exception.splits)

lemma upload_calls: "calls (snd (upload_to_s3 w p b k)) = [UploadFile p b k]"
  by (simp add: upload_to_s3_def prog_simps split: sum.splits exception.splits)

lemmas run_defs = run_config_def run_timestamp_def run_filename_def run_local_path_def
  run_s3_key_def child_env_def child_argv_def dump_result_def upload_result_def size_result_def
  remove_result_def

lemmas run_simps = prog_simps metric_returns notify_returns upload_returns
  metric_calls notify_calls upload_calls

subsection \<open>The paths through main\<close>

lemma main_config_invalid:
  assumes "missing_vars (run_config w) \<noteq> []"
  shows "fst (main w) = Inl (SystemExit 1)"
    and "calls (snd (main w)) = [failure_metric (run_config w)]"
    and "logged ERROR (snd (main w)) =
           [txt_missing_env @ join_comma (missing_vars (run_config w))]"
  using assms
  by (simp_all add: main_def Let_def run_config_def failure_metric_def failure_datum_def
        run_simps metric_logged_error del: block.simps)

lemma main_valid:
  assumes "missing_vars (run_config w) = []"
  shows "main w = try_except (main_try w (run_config w)) (main_except w (run_config w))"
  using assms by (simp add: main_def Let_def run_config_def)

lemma except_fst: "fst (main_except w c e) = Inl (SystemExit 1)"
  by (simp add: main_except_def run_simps del: block.simps split: exception.splits)

lemma except_calls:
  "calls (snd (main_except w (run_config w) e)) =
     failure_metric (run_config w) # except_notice w e"
  by (simp add: main_except_def failure_metric_def failure_datum_def run_simps
        except_notice_def failure_notice_def is_timeout_def timeout_body_def exception_body_def
        del: block.simps split: exception.splits)

lemma after_upload_fst:
  "fst (after_upload w c ts p k) =
     (case getsize w p of Inl e \<Rightarrow> Inl (Exception e) | Inr n \<Rightarrow> Inr ())"
  by (simp add: after_upload_def Let_def run_simps del: block.simps split: sum.splits)

lemma after_upload_calls:
  "calls (snd (after_upload w (run_config w) (run_timestamp w) (run_local_path w)
                 (run_s3_key w))) =
     GetSize (run_local_path w) #
     (case size_result w of Inl e \<Rightarrow> [] | Inr n \<Rightarrow> success_calls w n)"
  by (simp add: after_upload_def Let_def run_simps success_calls_def success_datum_def
        size_result_def del: block.simps split: sum.splits)

lemma main_try_fst:
  "fst (main_try w (run_config w)) =
     (case dump_result w of
        Inl e \<Rightarrow> Inl (Exception e)
      | Inr r \<Rightarrow>
          if returncode r \<noteq> 0 then Inl (SystemExit 1)
          else (case upload_result w of
                  Inl _ \<Rightarrow> Inl (SystemExit 1)
                | Inr _ \<Rightarrow> (case size_result w of
                              Inl e \<Rightarrow> Inl (Exception e)
                            | Inr _ \<Rightarrow> Inr ())))"
  by (simp add: main_try_def Let_def run_simps run_defs after_upload_fst
           del: block.simps split: sum.splits)

lemma main_try_unfold:
  "main_try w (run_config w) =
     pseq (log INFO (txt_start_backup @ fmt (RDS_DB_NAME (run_config w)) @ '' @ '' @
                       fmt (RDS_HOST (run_config w))))
    (pseq (log INFO (txt_s3_config @ S3_BUCKET (run_config w) @ '', prefix='' @
                       (if S3_PREFIX (run_config w) \<noteq> [] then S3_PREFIX (run_config w)
                        else txt_none_prefix) @ '', key='' @ run_s3_key w))
    (pseq (log INFO txt_run_pg_dump)
    (pbind (call (SubprocessRun (child_argv w) (child_env w) 3600) (dump_result w)) (\<lambda>result.
       if returncode result \<noteq> 0 then
         block [
           log ERROR (txt_pg_dump_failed @ stderr result),
           send_cloudwatch_metric w (run_config w) ''BackupFailure'' (PyInt 1) ''Count'' ''Failed'',
           send_sns_notification w (run_config w)
             (txt_subject_failed @ fmt (RDS_DB_NAME (run_config w)))
             (dump_failed_body (run_timestamp w) result),
           sys_exit 1]
       else
         pseq (log INFO txt_pg_dump_ok)
        (pseq (log INFO (txt_uploading @ S3_BUCKET (run_config w) @ ''/'' @ run_s3_key w))
        (pbind (upload_to_s3 w (run_local_path w) (S3_BUCKET (run_config w)) (run_s3_key w))
           (\<lambda>uploaded.
           if \<not> uploaded then
             block [
               send_cloudwatch_metric w (run_config w) ''BackupFailure'' (PyInt 1) ''Count''
                 ''Failed'',
               send_sns_notification w (run_config w)
                 (txt_subject_upload_failed @ fmt (RDS_DB_NAME (run_config w)))
                 (upload_failed_body (run_timestamp w) (run_s3_key w)),
               sys_exit 1]
           else after_upload w (run_config w) (run_timestamp w) (run_local_path w)
                  (run_s3_key w))))))))"
  unfolding main_try_def Let_def run_defs dump_failed_body_def upload_failed_body_def
  by (rule refl)

lemma main_try_calls:
  "calls (snd (main_try w (run_config w))) =
     SubprocessRun (child_argv w) (child_env w) 3600 #
     (case dump_result w of
        Inl e \<Rightarrow> []
      | Inr r \<Rightarrow>
          if returncode r \<noteq> 0
          then failure_metric (run_config w) #
               failure_notice (run_config w) txt_subject_failed
                 (dump_failed_body (run_timestamp w) r)
          else UploadFile (run_local_path w) (S3_BUCKET (run_config w)) (run_s3_key w) #
               (case upload_result w of
                  Inl _ \<Rightarrow>
                    failure_metric (run_config w) #
                    failure_notice (run_config w) txt_subject_upload_failed
                      (upload_failed_body (run_timestamp w) (run_s3_key w))
                | Inr _ \<Rightarrow>
                    GetSize (run_local_path w) #
                    (case size_result w of
                       Inl e \<Rightarrow> []
                     | Inr n \<Rightarrow> success_calls w n)))"
  by (simp add: main_try_unfold run_simps after_upload_fst after_upload_calls
        failure_metric_def failure_datum_def failure_notice_def upload_result_def
           del: block.simps split: sum.splits)

text \<open>How a run ends, and which external calls it makes, from the answers it gets.\<close>

lemma main_fst:
  "fst (main w) =
     (if missing_vars (run_config w) \<noteq> [] then Inl (SystemExit 1)
      else (case dump_result w of
        Inl e \<Rightarrow> Inl (SystemExit 1)
      | Inr r \<Rightarrow>
          if returncode r \<noteq> 0 then Inl (SystemExit 1)
          else (case upload_result w of
                  Inl _ \<Rightarrow> Inl (SystemExit 1)
                | Inr _ \<Rightarrow> (case size_result w of
                              Inl e \<Rightarrow> Inl (SystemExit 1)
                            | Inr _ \<Rightarrow> Inr ()))))"
proof (cases "missing_vars (run_config w) = []")
  case False
  then show ?thesis by (simp add: main_config_invalid)
next
  case True
  then show ?thesis
    by (simp add: main_valid fst_try_except main_try_fst except_fst split: sum.splits)
qed

lemma main_calls:
  "calls (snd (main w)) =
     (if missing_vars (run_config w) \<noteq> [] then [failure_metric (run_config w)]
      else
     SubprocessRun (child_argv w) (child_env w) 3600 #
     (case dump_result w of
        Inl e \<Rightarrow> failure_metric (run_config w) # except_notice w e
      | Inr r \<Rightarrow>
          if returncode r \<noteq> 0
          then failure_metric (run_config w) #
               failure_notice (run_config w) txt_subject_failed
                 (dump_failed_body (run_timestamp w) r)
          else UploadFile (run_local_path w) (S3_BUCKET (run_config w)) (run_s3_key w) #
               (case upload_result w of
                  Inl _ \<Rightarrow>
                    failure_metric (run_config w) #
                    failure_notice (run_config w) txt_subject_upload_failed
                      (upload_failed_body (run_timestamp w) (run_s3_key w))
                | Inr _ \<Rightarrow>
                    GetSize (run_local_path w) #
                    (case size_result w of
                       Inl e \<Rightarrow> failure_metric (run_config w) # except_notice w e
                     | Inr n \<Rightarrow> success_calls w n))))"
proof (cases "missing_vars (run_config w) = []")
  case False
  then show ?thesis by (simp add: main_config_invalid)
next
  case True
  then show ?thesis
    by (simp add: main_valid snd_try_except main_try_fst main_try_calls except_calls
          split: sum.splits)
qed

lemma dump_failed_logged:
  assumes "missing_vars (run_config w) = []" and "dump_result w = Inr r"
    and "returncode r \<noteq> 0"
  shows "Log ERROR (txt_pg_dump_failed @ stderr r) \<in> set (snd (main w))"
  using assms
  by (simp add: main_valid snd_try_except main_try_fst main_try_unfold prog_simps
        metric_returns notify_returns del: block.simps)

lemma timeout_logged:
  assumes "missing_vars (run_config w) = []" and "dump_result w = Inl (TimeoutExpired m)"
  shows "Log ERROR txt_timeout \<in> set (snd (main w))"
  using assms
  by (simp add: main_valid snd_try_except main_try_fst main_except_def prog_simps
        metric_returns notify_returns del: block.simps)

lemma after_upload_remove_logged:
  assumes "getsize w p = Inr n" and "remove_file w p = Inl e"
  shows "Log WARNING (txt_cleanup_failed @ str_exc e) \<in> set (snd (after_upload w c ts p k))"
  using assms
  by (simp add: after_upload_def Let_def prog_simps metric_returns notify_returns
        del: block.simps)

lemma main_try_subset:
  assumes "missing_vars (run_config w) = []"
  shows "set (snd (main_try w (run_config w))) \<subseteq> set (snd (main w))"
  using assms by (simp add: main_valid snd_try_except split: sum.splits raised.splits)

lemma remove_failed_logged:
  assumes "missing_vars (run_config w) = []" and "dump_result w = Inr r"
    and "returncode r = 0" and "upload_result w = Inr ()" and "size_result w = Inr n"
    and "remove_result w = Inl e"
  shows "Log WARNING (txt_cleanup_failed @ str_exc e) \<in> set (snd (main w))"
proof -
  have "Log WARNING (txt_cleanup_failed @ str_exc e) \<in>
          set (snd (after_upload w (run_config w) (run_timestamp w) (run_local_path w)
                      (run_s3_key w)))"
    using assms(5,6)
    by (intro after_upload_remove_logged) (simp_all add: size_result_def remove_result_def)
  moreover have "fst (upload_to_s3 w (run_local_path w) (S3_BUCKET (run_config w))
                   (run_s3_key w)) = Inr True"
    using assms(4) by (simp add: upload_returns upload_result_def)
  ultimately have "Log WARNING (txt_cleanup_failed @ str_exc e) \<in>
                     set (snd (main_try w (run_config w)))"
    using assms(2,3) by (simp add: main_try_unfold prog_simps del: block.simps)
  then show ?thesis
    using main_try_subset [OF assms(1)] by blast
qed

subsection \<open>Configuration and the bucket setting\<close>

lemma sublist_in_append: "sublist x zs \<Longrightarrow> sublist x (ps @ zs)"
proof -
  assume "sublist x zs"
  then obtain a b where "zs = a @ x @ b"
    unfolding sublist_def by blast
  then have "ps @ zs = (ps @ a) @ x @ b"
    by simp
  then show ?thesis
    unfolding sublist_def by blast
qed

lemma join_comma_sublist: "x \<in> set xs \<Longrightarrow> sublist x (join_comma xs)"
proof (induction xs rule: join_comma.induct)
  case 1
  then show ?case by simp
next
  case (2 y)
  then show ?case by simp
next
  case (3 y z zs)
  show ?case
  proof (cases "x = y")
    case True
    have "sublist y (y @ ('', '' @ join_comma (z # zs)))"
      by (rule sublist_append_rightI)
    with True show ?thesis by (simp only: join_comma.simps)
  next
    case False
    with 3 have "sublist x (join_comma (z # zs))" by simp
    then have "sublist x ((y @ '', '') @ join_comma (z # zs))"
      by (rule sublist_in_append)
    then show ?thesis by (simp only: join_comma.simps append_assoc)
  qed
qed

lemma missing_iff:
  "k \<in> set (missing_vars c) \<longleftrightarrow>
     (k = ''RDS_HOST'' \<and> \<not> truthy (RDS_HOST c)) \<or>
     (k = ''RDS_DB_NAME'' \<and> \<not> truthy (RDS_DB_NAME c)) \<or>
     (k = ''RDS_USERNAME'' \<and> \<not> truthy (RDS_USERNAME c)) \<or>
     (k = ''RDS_PASSWORD'' \<and> \<not> truthy (RDS_PASSWORD c)) \<or>
     (k = ''S3_BUCKET'' \<and> S3_BUCKET c = [])"
  unfolding missing_vars_def required_vars_def by auto

lemma config_fields:
  "RDS_HOST (run_config w) = environ w ''RDS_HOST''"
  "RDS_DB_NAME (run_config w) = environ w ''RDS_DB_NAME''"
  "RDS_USERNAME (run_config w) = environ w ''RDS_USERNAME''"
  "RDS_PASSWORD (run_config w) = environ w ''RDS_PASSWORD''"
  "S3_BUCKET (run_config w) = fst (parse_s3_bucket (environ_get (environ w) ''S3_BUCKET'' []))"
  "S3_PREFIX (run_config w) = snd (parse_s3_bucket (environ_get (environ w) ''S3_BUCKET'' []))"
  "SNS_TOPIC_ARN (run_config w) = environ_get (environ w) ''SNS_TOPIC_ARN'' []"
  "RDS_PORT (run_config w) = environ_get (environ w) ''RDS_PORT'' ''5432''"
  "CLOUDWATCH_NAMESPACE (run_config w) =
     environ_get (environ w) ''CLOUDWATCH_NAMESPACE'' ''RDS/Backup''"
  by (simp_all add: run_config_def load_config_def Let_def)

lemma parse_empty: "parse_s3_bucket [] = ([], [])"
  by (simp add: parse_s3_bucket_def)

lemma parse_leading_slash: "fst (parse_s3_bucket (CHR ''/'' # rest)) = []"
  by (simp add: parse_s3_bucket_def split_once_def Let_def)

lemma required_disj:
  assumes "k \<in> set required_keys"
  shows "k = ''RDS_HOST'' \<or> k = ''RDS_DB_NAME'' \<or> k = ''RDS_USERNAME'' \<or>
         k = ''RDS_PASSWORD'' \<or> k = ''S3_BUCKET''"
  using assms by (simp only: required_keys_def list.set insert_iff empty_iff simp_thms)

text \<open>A required setting whose value is not truthy is reported missing; for the bucket,
  what counts is the bucket name parsed from the value.\<close>

lemma falsy_is_missing:
  assumes "k \<in> set required_keys"
    and "k \<noteq> ''S3_BUCKET'' \<Longrightarrow> \<not> truthy (environ w k)"
    and "k = ''S3_BUCKET'' \<Longrightarrow> S3_BUCKET (run_config w) = []"
  shows "k \<in> set (missing_vars (run_config w))"
  using required_disj [OF assms(1)]
proof (elim disjE)
  assume host: "k = ''RDS_HOST''"
  then have "\<not> truthy (environ w ''RDS_HOST'')" using assms(2) by simp
  then show ?thesis unfolding host by (simp add: missing_iff config_fields)
next
  assume db: "k = ''RDS_DB_NAME''"
  then have "\<not> truthy (environ w ''RDS_DB_NAME'')" using assms(2) by simp
  then show ?thesis unfolding db by (simp add: missing_iff config_fields)
next
  assume user: "k = ''RDS_USERNAME''"
  then have "\<not> truthy (environ w ''RDS_USERNAME'')" using assms(2) by simp
  then show ?thesis unfolding user by (simp add: missing_iff config_fields)
next
  assume pw: "k = ''RDS_PASSWORD''"
  then have "\<not> truthy (environ w ''RDS_PASSWORD'')" using assms(2) by simp
  then show ?thesis unfolding pw by (simp add: missing_iff config_fields)
next
  assume bucket: "k = ''S3_BUCKET''"
  then have "S3_BUCKET (run_config w) = []" by (rule assms(3))
  then show ?thesis unfolding bucket by (simp add: missing_iff)
qed

lemma absent_bucket: "environ w ''S3_BUCKET'' = None \<Longrightarrow> S3_BUCKET (run_config w) = []"
  by (simp add: config_fields environ_get_def parse_empty)

lemma empty_bucket: "environ w ''S3_BUCKET'' = Some [] \<Longrightarrow> S3_BUCKET (run_config w) = []"
  by (simp add: config_fields environ_get_def parse_empty)

lemma slash_bucket:
  "environ w ''S3_BUCKET'' = Some (CHR ''/'' # rest) \<Longrightarrow> S3_BUCKET (run_config w) = []"
  by (simp add: config_fields environ_get_def parse_leading_slash)

lemma absent_is_missing:
  assumes "k \<in> set required_keys" and "environ w k = None"
  shows "k \<in> set (missing_vars (run_config w))"
proof (rule falsy_is_missing [OF assms(1)])
  show "\<not> truthy (environ w k)" using assms(2) by simp
  show "S3_BUCKET (run_config w) = []" if "k = ''S3_BUCKET''"
    using assms(2) that by (intro absent_bucket) simp
qed

lemma empty_is_missing:
  assumes "k \<in> set required_keys" and "environ w k = Some []"
  shows "k \<in> set (missing_vars (run_config w))"
proof (rule falsy_is_missing [OF assms(1)])
  show "\<not> truthy (environ w k)" using assms(2) by simp
  show "S3_BUCKET (run_config w) = []" if "k = ''S3_BUCKET''"
    using assms(2) that by (intro empty_bucket) simp
qed

lemma slash_is_missing:
  assumes "environ w ''S3_BUCKET'' = Some (CHR ''/'' # rest)"
  shows "''S3_BUCKET'' \<in> set (missing_vars (run_config w))"
  using slash_bucket [OF assms] by (simp add: missing_iff)

lemma run_config_environ [simp]: "run_config (w \<lparr> environ := e \<rparr>) = load_config e"
  by (simp add: run_config_def)

lemma missing_vars_cong:
  assumes "truthy (RDS_HOST c) = truthy (RDS_HOST c')"
    and "truthy (RDS_DB_NAME c) = truthy (RDS_DB_NAME c')"
    and "truthy (RDS_USERNAME c) = truthy (RDS_USERNAME c')"
    and "truthy (RDS_PASSWORD c) = truthy (RDS_PASSWORD c')"
    and "(S3_BUCKET c = []) = (S3_BUCKET c' = [])"
  shows "missing_vars c = missing_vars c'"
  using assms by (simp add: missing_vars_def required_vars_def)

lemma truthy_unset:
  assumes "f \<noteq> k \<or> \<not> truthy (env k)"
  shows "truthy ((env(k := None)) f) = truthy (env f)"
  using assms by (cases "f = k") simp_all

lemma bucket_unset:
  assumes "k \<noteq> ''S3_BUCKET'' \<or> fst (parse_s3_bucket (environ_get env ''S3_BUCKET'' [])) = []"
  shows "(fst (parse_s3_bucket (environ_get (env(k := None)) ''S3_BUCKET'' [])) = []) =
         (fst (parse_s3_bucket (environ_get env ''S3_BUCKET'' [])) = [])"
proof (cases "k = ''S3_BUCKET''")
  case True
  with assms show ?thesis by (simp add: environ_get_def parse_empty)
next
  case False
  then have "''S3_BUCKET'' \<noteq> k" by (rule not_sym)
  then show ?thesis by (simp add: environ_get_def)
qed

lemma unset_like_empty:
  assumes "k \<in> set required_keys"
    and "environ w k = Some [] \<or>
         (k = ''S3_BUCKET'' \<and> (\<exists>rest. environ w k = Some (CHR ''/'' # rest)))"
  shows "missing_vars (run_config (w \<lparr> environ := (environ w)(k := None) \<rparr>)) =
         missing_vars (run_config w)"
proof -
  have other: "f \<noteq> k \<or> \<not> truthy (environ w k)" if "f \<noteq> ''S3_BUCKET''" for f
    using assms(2) that by (elim disjE conjE) simp_all
  have bucket: "k \<noteq> ''S3_BUCKET'' \<or>
      fst (parse_s3_bucket (environ_get (environ w) ''S3_BUCKET'' [])) = []"
    using assms(2)
  proof (elim disjE conjE exE)
    assume e: "environ w k = Some []"
    show ?thesis
    proof (cases "k = ''S3_BUCKET''")
      case True
      with e show ?thesis by (simp add: environ_get_def parse_empty)
    next
      case False
      then show ?thesis by simp
    qed
  next
    fix rest
    assume "k = ''S3_BUCKET''" and "environ w k = Some (CHR ''/'' # rest)"
    then show ?thesis by (simp add: environ_get_def parse_leading_slash)
  qed
  have h1: "truthy (((environ w)(k := None)) ''RDS_HOST'') = truthy (environ w ''RDS_HOST'')"
    by (rule truthy_unset, rule other) simp
  have h2: "truthy (((environ w)(k := None)) ''RDS_DB_NAME'') =
            truthy (environ w ''RDS_DB_NAME'')"
    by (rule truthy_unset, rule other) simp
  have h3: "truthy (((environ w)(k := None)) ''RDS_USERNAME'') =
            truthy (environ w ''RDS_USERNAME'')"
    by (rule truthy_unset, rule other) simp
  have h4: "truthy (((environ w)(k := None)) ''RDS_PASSWORD'') =
            truthy (environ w ''RDS_PASSWORD'')"
    by (rule truthy_unset, rule other) simp
  note h5 = bucket_unset [OF bucket]
  show ?thesis
    unfolding run_config_environ run_config_def
    by (rule missing_vars_cong)
       (simp_all add: load_config_def Let_def h1 h2 h3 h4 h5 del: fun_upd_apply)
qed



subsection \<open>The sample runs\<close>

lemma sample_config:
  "run_config world_ok =
     \<lparr> RDS_HOST = Some ''db.internal'', RDS_PORT = ''5432'', RDS_DB_NAME = Some ''appdb'',
       RDS_USERNAME = Some ''backup'', RDS_PASSWORD = Some ''s3cret'',
       S3_BUCKET_RAW = ''mybucket'', SNS_TOPIC_ARN = ''arn:aws:sns:ap-northeast-1:1:ops'',
       CLOUDWATCH_NAMESPACE = ''RDS/Backup'', AWS_REGION = ''ap-northeast-1'',
       S3_BUCKET = ''mybucket'', S3_PREFIX = [] \<rparr>"
  by (simp add: run_config_def world_ok_def load_config_def sample_environ_def environ_get_def
        parse_s3_bucket_def py_or_def Let_def)

lemma sample_valid: "missing_vars (run_config world_ok) = []"
  by (simp add: sample_config missing_vars_def required_vars_def)

lemma sample_timestamp: "strftime_stamp sample_time = ''2024-03-07-040509''"
  by (simp add: strftime_stamp_def sample_time_def four_digits_def two_digits_def digit_char_def)

lemma sample_date_path: "strftime_date_path sample_time = ''2024/03/07''"
  by (simp add: strftime_date_path_def sample_time_def four_digits_def two_digits_def
        digit_char_def)

lemma sample_clock: "utcnow world_ok k = sample_time"
  by (simp add: world_ok_def)


lemma sample_results:
  "dump_result world_ok = Inr \<lparr> returncode = 0, stdout = [], stderr = [] \<rparr>"
  "upload_result world_ok = Inr ()"
  "size_result world_ok = Inr 1048576"
  "remove_result world_ok = Inr ()"
  by (simp_all add: dump_result_def upload_result_def size_result_def remove_result_def
        world_ok_def)


subsection \<open>Printed sizes\<close>










subsection \<open>The other sample runs\<close>

lemma variant_config:
  "run_config world_size_fails = run_config world_ok"
  "run_config world_dump_fails = run_config world_ok"
  "run_config world_dump_times_out = run_config world_ok"
  "run_config world_upload_fails = run_config world_ok"
  "run_config world_remove_fails = run_config world_ok"
  "run_config world_no_observability = run_config world_ok"
  "run_config world_midnight = run_config world_ok"
  "run_config world_year_end = run_config world_ok"
  by (simp_all add: run_config_def world_size_fails_def world_dump_fails_def
        world_dump_times_out_def world_upload_fails_def world_remove_fails_def
        world_no_observability_def world_midnight_def world_year_end_def)

lemma variant_clock:
  "utcnow world_size_fails k = sample_time"
  "utcnow world_dump_fails k = sample_time"
  "utcnow world_dump_times_out k = sample_time"
  "utcnow world_upload_fails k = sample_time"
  "utcnow world_remove_fails k = sample_time"
  "utcnow world_no_observability k = sample_time"
  "utcnow world_dump_fails_no_topic k = sample_time"
  "utcnow world_upload_fails_no_topic k = sample_time"
  by (simp_all add: world_size_fails_def world_dump_fails_def world_dump_times_out_def
        world_upload_fails_def world_remove_fails_def world_no_observability_def
        world_dump_fails_no_topic_def world_upload_fails_no_topic_def world_ok_def)

lemma no_topic_config:
  "run_config world_dump_fails_no_topic =
     \<lparr> RDS_HOST = Some ''db.internal'', RDS_PORT = ''5432'', RDS_DB_NAME = Some ''appdb'',
       RDS_USERNAME = Some ''backup'', RDS_PASSWORD = Some ''s3cret'',
       S3_BUCKET_RAW = ''mybucket'', SNS_TOPIC_ARN = [],
       CLOUDWATCH_NAMESPACE = ''RDS/Backup'', AWS_REGION = ''ap-northeast-1'',
       S3_BUCKET = ''mybucket'', S3_PREFIX = [] \<rparr>"
  "run_config world_upload_fails_no_topic = run_config world_dump_fails_no_topic"
  by (simp_all add: run_config_def world_dump_fails_no_topic_def
        world_upload_fails_no_topic_def load_config_def sample_environ_def environ_get_def
        parse_s3_bucket_def py_or_def Let_def)

lemma in_calls: "ev \<in> set (calls tr) \<longleftrightarrow> ev \<in> set tr \<and> is_call ev"
  by (simp add: calls_def)

lemma dump_call_unique:
  assumes "SubprocessRun argv env t \<in> set (snd (main w))"
  shows "missing_vars (run_config w) = []"
    and "SubprocessRun argv env t = SubprocessRun (child_argv w) (child_env w) 3600"
proof -
  have "SubprocessRun argv env t \<in> set (calls (snd (main w)))"
    using assms by (simp add: in_calls is_call_def)
  then have "missing_vars (run_config w) = [] \<and>
             SubprocessRun argv env t = SubprocessRun (child_argv w) (child_env w) 3600"
    by (simp add: main_calls failure_metric_def except_notice_def failure_notice_def
          success_calls_def split: if_splits sum.splits)
  then show "missing_vars (run_config w) = []"
    and "SubprocessRun argv env t = SubprocessRun (child_argv w) (child_env w) 3600"
    by simp_all
qed

lemma dump_call_made:
  assumes "missing_vars (run_config w) = []"
  shows "SubprocessRun (child_argv w) (child_env w) 3600 \<in> set (snd (main w))"
proof -
  have "SubprocessRun (child_argv w) (child_env w) 3600 \<in> set (calls (snd (main w)))"
    using assms by (simp add: main_calls)
  then show ?thesis
    by (simp add: in_calls)
qed

lemma child_argv_explicit:
  "child_argv w =
     [Some ''pg_dump'',
      Some ''-h'', environ w ''RDS_HOST'',
      Some ''-p'', Some (environ_get (environ w) ''RDS_PORT'' ''5432''),
      Some ''-U'', environ w ''RDS_USERNAME'',
      Some ''-d'', environ w ''RDS_DB_NAME'',
      Some ''-F'', Some ''c'',
      Some ''-f'', Some (''/tmp/backup-'' @ fmt (environ w ''RDS_DB_NAME'') @ ''-'' @
                         strftime_stamp (utcnow w 0) @ ''.dump''),
      Some ''--no-owner'', Some ''--no-acl'', Some ''--verbose'']"
  by (simp add: child_argv_def pg_dump_command_def config_fields run_local_path_def
        run_filename_def run_timestamp_def backup_filename_def)


lemma invalid_run:
  assumes "k \<in> set (missing_vars (run_config w))"
  shows "exit_code (main w) = 1"
    and "calls (trace (main w)) = [failure_metric (run_config w)]"
    and "metrics (trace (main w)) = [failure_datum (run_config w)]"
    and "notifications (trace (main w)) = []"
    and "logged ERROR (trace (main w)) =
           [txt_missing_env @ join_comma (missing_vars (run_config w))]"
    and "sublist k (join_comma (missing_vars (run_config w)))"
proof -
  from assms have ne: "missing_vars (run_config w) \<noteq> []"
    by (cases "missing_vars (run_config w)") simp_all
  show "exit_code (main w) = 1"
    by (simp add: exit_code_def main_config_invalid(1) [OF ne])
  show c: "calls (trace (main w)) = [failure_metric (run_config w)]"
    by (simp add: trace_def main_config_invalid(2) [OF ne])
  show "metrics (trace (main w)) = [failure_datum (run_config w)]"
    by (subst metrics_calls) (simp add: c failure_metric_def)
  show "notifications (trace (main w)) = []"
    by (subst notifications_calls) (simp add: c failure_metric_def)
  show "logged ERROR (trace (main w)) =
          [txt_missing_env @ join_comma (missing_vars (run_config w))]"
    by (simp add: trace_def main_config_invalid(3) [OF ne])
  show "sublist k (join_comma (missing_vars (run_config w)))"
    using assms by (rule join_comma_sublist)
qed

lemma two_missing_config:
  "missing_vars (run_config world_two_missing) = [''RDS_HOST'', ''RDS_PASSWORD'']"
  "failure_datum (run_config world_two_missing) =
       \<lparr> MetricName = ''BackupFailure'', Value = PyInt 1, Unit = ''Count'',
         Dimensions = [(''Database'', Some ''appdb''), (''Status'', Some ''Failed'')] \<rparr>"
  "CLOUDWATCH_NAMESPACE (run_config world_two_missing) = ''RDS/Backup''"
  "environ world_two_missing ''RDS_PASSWORD'' = None"
  "environ world_two_missing ''RDS_HOST'' = None"
  by (simp_all add: world_two_missing_def world_ok_def run_config_def load_config_def
        sample_environ_def environ_get_def parse_s3_bucket_def py_or_def Let_def
        missing_vars_def required_vars_def failure_datum_def)

lemma dump_call_result:
  assumes "SubprocessRun argv env t \<in> set (trace (main w))"
  shows "missing_vars (run_config w) = []" and "t = 3600"
    and "subprocess_run w argv env t = dump_result w"
proof -
  note u = dump_call_unique [OF assms [unfolded trace_def]]
  show "missing_vars (run_config w) = []" by (rule u(1))
  from u(2) have "argv = child_argv w" and "env = child_env w" and t: "t = 3600"
    by simp_all
  then show "subprocess_run w argv env t = dump_result w"
    by (simp add: dump_result_def)
  show "t = 3600" by (rule t)
qed

lemma dump_failed_run:
  assumes "missing_vars (run_config w) = []" and "dump_result w = Inr r"
    and "returncode r \<noteq> 0"
  shows "exit_code (main w) = 1"
    and "calls (trace (main w)) =
           [SubprocessRun (child_argv w) (child_env w) 3600, failure_metric (run_config w)] @
           failure_notice (run_config w) txt_subject_failed
             (dump_failed_body (run_timestamp w) r)"
    and "Log ERROR (txt_pg_dump_failed @ stderr r) \<in> set (trace (main w))"
  using assms dump_failed_logged [OF assms]
  by (simp_all add: exit_code_def main_fst trace_def main_calls)

lemma timeout_run:
  assumes "missing_vars (run_config w) = []" and "dump_result w = Inl (TimeoutExpired m)"
  shows "exit_code (main w) = 1"
    and "calls (trace (main w)) =
           [SubprocessRun (child_argv w) (child_env w) 3600, failure_metric (run_config w)] @
           failure_notice (run_config w) txt_subject_timeout
             (timeout_body (strftime_stamp (utcnow w 2)))"
    and "Log ERROR txt_timeout \<in> set (trace (main w))"
  using assms timeout_logged [OF assms]
  by (simp_all add: exit_code_def main_fst trace_def main_calls except_notice_def
        is_timeout_def)

lemma failure_calls_read:
  "metrics (failure_metric c # failure_notice c subject body) = [failure_datum c]"
  "notifications (failure_metric c # failure_notice c subject body) =
     (if SNS_TOPIC_ARN c = [] then [] else [(SNS_TOPIC_ARN c, subject @ fmt (RDS_DB_NAME c), body)])"
  "uploads (failure_metric c # failure_notice c subject body) = []"
  "removals (failure_metric c # failure_notice c subject body) = []"
  by (simp_all add: failure_metric_def failure_notice_def)

lemma dump_worlds_valid:
  "missing_vars (run_config world_dump_fails) = []"
  "missing_vars (run_config world_dump_times_out) = []"
  "missing_vars (run_config world_dump_fails_no_topic) = []"
  by (simp_all add: variant_config sample_valid)
     (simp add: no_topic_config missing_vars_def required_vars_def)

lemma dump_worlds:
  "subprocess_run world_dump_fails a e t = Inr failed_dump"
  "subprocess_run world_dump_fails_no_topic a e t = Inr failed_dump"
  "subprocess_run world_dump_times_out a e t = Inl (TimeoutExpired ''timed out after 3600 seconds'')"
  by (simp_all add: world_dump_fails_def world_dump_times_out_def
        world_dump_fails_no_topic_def)

lemma dump_worlds_timestamp:
  "run_timestamp world_dump_fails = ''2024-03-07-040509''"
  "run_timestamp world_dump_fails_no_topic = ''2024-03-07-040509''"
  "run_timestamp world_dump_times_out = ''2024-03-07-040509''"
  by (simp_all add: run_timestamp_def variant_clock sample_timestamp)

lemma upload_call_unique:
  assumes "UploadFile p b k \<in> set (snd (main w))"
  shows "missing_vars (run_config w) = []"
    and "\<exists>r. dump_result w = Inr r \<and> returncode r = 0"
    and "UploadFile p b k =
           UploadFile (run_local_path w) (S3_BUCKET (run_config w)) (run_s3_key w)"
proof -
  have "UploadFile p b k \<in> set (calls (snd (main w)))"
    using assms by (simp add: in_calls is_call_def)
  then have "missing_vars (run_config w) = [] \<and>
             (\<exists>r. dump_result w = Inr r \<and> returncode r = 0) \<and>
             UploadFile p b k =
               UploadFile (run_local_path w) (S3_BUCKET (run_config w)) (run_s3_key w)"
    by (simp add: main_calls failure_metric_def except_notice_def failure_notice_def
          success_calls_def split: if_splits sum.splits)
  then show "missing_vars (run_config w) = []"
    and "\<exists>r. dump_result w = Inr r \<and> returncode r = 0"
    and "UploadFile p b k =
           UploadFile (run_local_path w) (S3_BUCKET (run_config w)) (run_s3_key w)"
    by simp_all
qed

lemma upload_call_made:
  assumes "missing_vars (run_config w) = []" and "dump_result w = Inr r"
    and "returncode r = 0"
  shows "UploadFile (run_local_path w) (S3_BUCKET (run_config w)) (run_s3_key w) \<in>
           set (snd (main w))"
proof -
  have "UploadFile (run_local_path w) (S3_BUCKET (run_config w)) (run_s3_key w) \<in>
          set (calls (snd (main w)))"
    using assms by (simp add: main_calls)
  then show ?thesis
    by (simp add: in_calls)
qed

lemma upload_call_result:
  assumes "UploadFile p b k \<in> set (trace (main w))"
  shows "missing_vars (run_config w) = []"
    and "\<exists>r. dump_result w = Inr r \<and> returncode r = 0"
    and "p = run_local_path w" and "b = S3_BUCKET (run_config w)" and "k = run_s3_key w"
    and "upload_file w p b k = upload_result w"
proof -
  note u = upload_call_unique [OF assms [unfolded trace_def]]
  show "missing_vars (run_config w) = []" by (rule u(1))
  show "\<exists>r. dump_result w = Inr r \<and> returncode r = 0" by (rule u(2))
  from u(3) show p: "p = run_local_path w" and b: "b = S3_BUCKET (run_config w)"
    and k: "k = run_s3_key w"
    by simp_all
  show "upload_file w p b k = upload_result w"
    by (simp add: p b k upload_result_def)
qed

lemma upload_trace:
  "snd (upload_to_s3 w p b k) =
     UploadFile p b k #
     (case upload_file w p b k of
        Inr _ \<Rightarrow> [Log INFO (txt_upload_ok @ b @ ''/'' @ k)]
      | Inl e \<Rightarrow> [Log ERROR (txt_upload_failed @ '': '' @
                     (if is_no_credentials e then txt_no_credentials else str_exc e))])"
  by (simp add: upload_to_s3_def prog_simps is_no_credentials_def
         split: sum.splits exception.splits)

lemma upload_failed_run:
  assumes "missing_vars (run_config w) = []" and "dump_result w = Inr r"
    and "returncode r = 0" and "upload_result w = Inl e"
  shows "exit_code (main w) = 1"
    and "calls (trace (main w)) =
           [SubprocessRun (child_argv w) (child_env w) 3600,
            UploadFile (run_local_path w) (S3_BUCKET (run_config w)) (run_s3_key w),
            failure_metric (run_config w)] @
           failure_notice (run_config w) txt_subject_upload_failed
             (upload_failed_body (run_timestamp w) (run_s3_key w))"
    and "Log ERROR (txt_upload_failed @ '': '' @
           (if is_no_credentials e then txt_no_credentials else str_exc e)) \<in>
         set (trace (main w))"
proof -
  show "exit_code (main w) = 1"
    using assms by (simp add: exit_code_def main_fst)
  show "calls (trace (main w)) =
           [SubprocessRun (child_argv w) (child_env w) 3600,
            UploadFile (run_local_path w) (S3_BUCKET (run_config w)) (run_s3_key w),
            failure_metric (run_config w)] @
           failure_notice (run_config w) txt_subject_upload_failed
             (upload_failed_body (run_timestamp w) (run_s3_key w))"
    using assms by (simp add: trace_def main_calls)
  have "Log ERROR (txt_upload_failed @ '': '' @
           (if is_no_credentials e then txt_no_credentials else str_exc e)) \<in>
        set (snd (upload_to_s3 w (run_local_path w) (S3_BUCKET (run_config w)) (run_s3_key w)))"
    using assms(4) by (simp add: upload_trace upload_result_def)
  then have "Log ERROR (txt_upload_failed @ '': '' @
           (if is_no_credentials e then txt_no_credentials else str_exc e)) \<in>
        set (snd (main_try w (run_config w)))"
    using assms(2,3) assms(4) [unfolded upload_result_def]
    by (simp add: main_try_unfold prog_simps upload_returns del: block.simps)
  then show "Log ERROR (txt_upload_failed @ '': '' @
           (if is_no_credentials e then txt_no_credentials else str_exc e)) \<in>
         set (trace (main w))"
    unfolding trace_def using main_try_subset [OF assms(1)] by blast
qed

lemma subjects_differ:
  "txt_subject_upload_failed @ x \<noteq> txt_subject_failed @ x"
  "txt_subject_upload_failed @ x \<noteq> txt_subject_timeout @ x"
  "txt_subject_upload_failed @ x \<noteq> txt_subject_success @ x"
  by (simp_all add: txt_subject_upload_failed_def txt_subject_failed_def
        txt_subject_timeout_def txt_subject_success_def)

lemma upload_worlds_valid:
  "missing_vars (run_config world_upload_fails) = []"
  "missing_vars (run_config world_upload_fails_no_topic) = []"
  by (simp add: variant_config sample_valid)
     (simp add: no_topic_config missing_vars_def required_vars_def)

lemma upload_worlds:
  "subprocess_run world_upload_fails a e t = Inr \<lparr> returncode = 0, stdout = [], stderr = [] \<rparr>"
  "subprocess_run world_upload_fails_no_topic a e t =
     Inr \<lparr> returncode = 0, stdout = [], stderr = [] \<rparr>"
  "upload_file world_upload_fails p b k = Inl (ClientError ''AccessDenied'')"
  "upload_file world_upload_fails_no_topic p b k = Inl (ClientError ''AccessDenied'')"
  by (simp_all add: world_upload_fails_def world_upload_fails_no_topic_def world_ok_def)

lemma upload_worlds_names:
  "run_timestamp world_upload_fails = ''2024-03-07-040509''"
  "run_local_path world_upload_fails = ''/tmp/backup-appdb-2024-03-07-040509.dump''"
  "run_s3_key world_upload_fails = ''backups/2024/03/07/backup-appdb-2024-03-07-040509.dump''"
  "run_local_path world_upload_fails_no_topic = ''/tmp/backup-appdb-2024-03-07-040509.dump''"
  "run_s3_key world_upload_fails_no_topic =
     ''backups/2024/03/07/backup-appdb-2024-03-07-040509.dump''"
  by (simp_all add: run_timestamp_def run_local_path_def run_filename_def run_s3_key_def
        variant_config sample_config no_topic_config backup_filename_def s3_key_of_def
        variant_clock sample_timestamp sample_date_path)

lemma removal_updates:
  "run_config (w \<lparr> remove_file := rf \<rparr>) = run_config w"
  "run_timestamp (w \<lparr> remove_file := rf \<rparr>) = run_timestamp w"
  "run_local_path (w \<lparr> remove_file := rf \<rparr>) = run_local_path w"
  "run_s3_key (w \<lparr> remove_file := rf \<rparr>) = run_s3_key w"
  "child_argv (w \<lparr> remove_file := rf \<rparr>) = child_argv w"
  "child_env (w \<lparr> remove_file := rf \<rparr>) = child_env w"
  "dump_result (w \<lparr> remove_file := rf \<rparr>) = dump_result w"
  "upload_result (w \<lparr> remove_file := rf \<rparr>) = upload_result w"
  "size_result (w \<lparr> remove_file := rf \<rparr>) = size_result w"
  "except_notice (w \<lparr> remove_file := rf \<rparr>) e = except_notice w e"
  "success_calls (w \<lparr> remove_file := rf \<rparr>) n = success_calls w n"
  by (simp_all add: run_defs except_notice_def success_calls_def)

lemma removal_free:
  "fst (main (w \<lparr> remove_file := rf \<rparr>)) = fst (main w)"
  "calls (snd (main (w \<lparr> remove_file := rf \<rparr>))) = calls (snd (main w))"
  by (simp_all only: main_fst main_calls removal_updates)

lemma uploaded_run:
  assumes "missing_vars (run_config w) = []" and "dump_result w = Inr r"
    and "returncode r = 0" and "upload_result w = Inr ()" and "size_result w = Inr n"
  shows "exit_code (main w) = 0"
    and "calls (trace (main w)) =
           [SubprocessRun (child_argv w) (child_env w) 3600,
            UploadFile (run_local_path w) (S3_BUCKET (run_config w)) (run_s3_key w),
            GetSize (run_local_path w)] @ success_calls w n"
    and "removals (trace (main w)) = [run_local_path w]"
    and "last (calls (trace (main w))) = Remove (run_local_path w)"
proof -
  show "exit_code (main w) = 0"
    using assms by (simp add: exit_code_def main_fst)
  show c: "calls (trace (main w)) =
           [SubprocessRun (child_argv w) (child_env w) 3600,
            UploadFile (run_local_path w) (S3_BUCKET (run_config w)) (run_s3_key w),
            GetSize (run_local_path w)] @ success_calls w n"
    using assms by (simp add: trace_def main_calls)
  show "removals (trace (main w)) = [run_local_path w]"
    by (subst removals_calls) (simp add: c success_calls_def)
  show "last (calls (trace (main w))) = Remove (run_local_path w)"
    by (simp add: c success_calls_def)
qed

lemma size_failed_run:
  assumes "missing_vars (run_config w) = []" and "dump_result w = Inr r"
    and "returncode r = 0" and "upload_result w = Inr ()" and "size_result w = Inl e"
  shows "exit_code (main w) = 1"
    and "removals (trace (main w)) = []"
proof -
  show "exit_code (main w) = 1"
    using assms by (simp add: exit_code_def main_fst)
  have c: "calls (trace (main w)) =
           [SubprocessRun (child_argv w) (child_env w) 3600,
            UploadFile (run_local_path w) (S3_BUCKET (run_config w)) (run_s3_key w),
            GetSize (run_local_path w), failure_metric (run_config w)] @ except_notice w e"
    using assms by (simp add: trace_def main_calls)
  show "removals (trace (main w)) = []"
    by (subst removals_calls)
       (simp add: c failure_metric_def except_notice_def failure_notice_def)
qed

lemma cleanup_worlds_valid:
  "missing_vars (run_config world_remove_fails) = []"
  "missing_vars (run_config world_size_fails) = []"
  by (simp_all add: variant_config sample_valid)

lemma cleanup_worlds:
  "subprocess_run world_remove_fails a e t = Inr \<lparr> returncode = 0, stdout = [], stderr = [] \<rparr>"
  "subprocess_run world_size_fails a e t = Inr \<lparr> returncode = 0, stdout = [], stderr = [] \<rparr>"
  "upload_file world_remove_fails p b k = Inr ()"
  "upload_file world_size_fails p b k = Inr ()"
  "getsize world_remove_fails p = Inr 1048576"
  "getsize world_size_fails p = Inl (OtherException ''[Errno 2] No such file or directory'')"
  "remove_file world_remove_fails p = Inl (OtherException ''Permission denied'')"
  by (simp_all add: world_remove_fails_def world_size_fails_def world_ok_def)

lemma cleanup_worlds_names:
  "run_local_path world_remove_fails = ''/tmp/backup-appdb-2024-03-07-040509.dump''"
  "run_s3_key world_remove_fails = ''backups/2024/03/07/backup-appdb-2024-03-07-040509.dump''"
  "run_local_path world_size_fails = ''/tmp/backup-appdb-2024-03-07-040509.dump''"
  "run_s3_key world_size_fails = ''backups/2024/03/07/backup-appdb-2024-03-07-040509.dump''"
  by (simp_all add: run_timestamp_def run_local_path_def run_filename_def run_s3_key_def
        variant_config sample_config backup_filename_def s3_key_of_def
        variant_clock sample_timestamp sample_date_path)

lemma sample_upload_calls:
  "UploadFile ''/tmp/backup-appdb-2024-03-07-040509.dump'' ''mybucket''
     ''backups/2024/03/07/backup-appdb-2024-03-07-040509.dump'' \<in>
     set (trace (main world_remove_fails))"
  "UploadFile ''/tmp/backup-appdb-2024-03-07-040509.dump'' ''mybucket''
     ''backups/2024/03/07/backup-appdb-2024-03-07-040509.dump'' \<in>
     set (trace (main world_size_fails))"
  "UploadFile ''/tmp/backup-appdb-2024-03-07-040509.dump'' ''mybucket''
     ''backups/2024/03/07/backup-appdb-2024-03-07-040509.dump'' \<in>
     set (trace (main world_upload_fails))"
proof -
  have z: "returncode \<lparr> returncode = 0, stdout = [], stderr = [] \<rparr> = 0"
    by simp
  have d1: "dump_result world_remove_fails = Inr \<lparr> returncode = 0, stdout = [], stderr = [] \<rparr>"
    by (simp add: dump_result_def cleanup_worlds)
  have d2: "dump_result world_size_fails = Inr \<lparr> returncode = 0, stdout = [], stderr = [] \<rparr>"
    by (simp add: dump_result_def cleanup_worlds)
  have d3: "dump_result world_upload_fails = Inr \<lparr> returncode = 0, stdout = [], stderr = [] \<rparr>"
    by (simp add: dump_result_def upload_worlds)
  show "UploadFile ''/tmp/backup-appdb-2024-03-07-040509.dump'' ''mybucket''
     ''backups/2024/03/07/backup-appdb-2024-03-07-040509.dump'' \<in>
     set (trace (main world_remove_fails))"
    using upload_call_made [OF cleanup_worlds_valid(1) d1 z]
    by (simp add: trace_def cleanup_worlds_names variant_config sample_config)
  show "UploadFile ''/tmp/backup-appdb-2024-03-07-040509.dump'' ''mybucket''
     ''backups/2024/03/07/backup-appdb-2024-03-07-040509.dump'' \<in>
     set (trace (main world_size_fails))"
    using upload_call_made [OF cleanup_worlds_valid(2) d2 z]
    by (simp add: trace_def cleanup_worlds_names variant_config sample_config)
  show "UploadFile ''/tmp/backup-appdb-2024-03-07-040509.dump'' ''mybucket''
     ''backups/2024/03/07/backup-appdb-2024-03-07-040509.dump'' \<in>
     set (trace (main world_upload_fails))"
    using upload_call_made [OF upload_worlds_valid(1) d3 z]
    by (simp add: trace_def upload_worlds_names variant_config sample_config)
qed

lemma observability_updates:
  "run_config (w \<lparr> put_metric_data := pm, publish := pb \<rparr>) = run_config w"
  "run_timestamp (w \<lparr> put_metric_data := pm, publish := pb \<rparr>) = run_timestamp w"
  "run_local_path (w \<lparr> put_metric_data := pm, publish := pb \<rparr>) = run_local_path w"
  "run_s3_key (w \<lparr> put_metric_data := pm, publish := pb \<rparr>) = run_s3_key w"
  "child_argv (w \<lparr> put_metric_data := pm, publish := pb \<rparr>) = child_argv w"
  "child_env (w \<lparr> put_metric_data := pm, publish := pb \<rparr>) = child_env w"
  "dump_result (w \<lparr> put_metric_data := pm, publish := pb \<rparr>) = dump_result w"
  "upload_result (w \<lparr> put_metric_data := pm, publish := pb \<rparr>) = upload_result w"
  "size_result (w \<lparr> put_metric_data := pm, publish := pb \<rparr>) = size_result w"
  "except_notice (w \<lparr> put_metric_data := pm, publish := pb \<rparr>) e = except_notice w e"
  "success_calls (w \<lparr> put_metric_data := pm, publish := pb \<rparr>) n = success_calls w n"
  by (simp_all add: run_defs except_notice_def success_calls_def)

lemma observability_free:
  "fst (main (w \<lparr> put_metric_data := pm, publish := pb \<rparr>)) = fst (main w)"
  "calls (snd (main (w \<lparr> put_metric_data := pm, publish := pb \<rparr>))) = calls (snd (main w))"
  by (simp_all only: main_fst main_calls observability_updates)

lemma no_observability_run:
  "world_ok \<lparr> put_metric_data := (\<lambda>_ _. Inl (NoCredentialsError ''Unable to locate credentials'')),
              publish := (\<lambda>_ _ _. Inl (ClientError ''AuthorizationError'')) \<rparr> =
   world_no_observability"
  "exit_code (main world_ok) = 0"
  by (simp_all add: world_no_observability_def exit_code_def main_fst sample_valid
        sample_results)


lemma key_of_one_reading:
  assumes "utcnow w 1 = utcnow w 0"
  shows "run_s3_key w =
           (if S3_PREFIX (run_config w) = [] then ''backups/'' else S3_PREFIX (run_config w)) @
           four_digits (year (utcnow w 0)) @ ''/'' @ two_digits (month (utcnow w 0)) @ ''/'' @
           two_digits (day (utcnow w 0)) @ ''/backup-'' @ fmt (RDS_DB_NAME (run_config w)) @
           ''-'' @ strftime_stamp (utcnow w 0) @ ''.dump''"
  using assms
  by (simp add: run_s3_key_def s3_key_of_def run_filename_def run_timestamp_def
        backup_filename_def strftime_date_path_def)

lemma midnight_clock:
  "utcnow world_midnight 0 =
     \<lparr> year = 2024, month = 12, day = 31, hour = 23, minute = 59, second = 59 \<rparr>"
  "utcnow world_midnight 1 =
     \<lparr> year = 2025, month = 1, day = 1, hour = 0, minute = 0, second = 0 \<rparr>"
  "utcnow world_midnight (Suc 0) =
     \<lparr> year = 2025, month = 1, day = 1, hour = 0, minute = 0, second = 0 \<rparr>"
  "utcnow world_year_end k =
     \<lparr> year = 2024, month = 12, day = 31, hour = 23, minute = 59, second = 59 \<rparr>"
  by (simp_all add: world_midnight_def world_year_end_def)

lemma midnight_names:
  "run_timestamp world_midnight = ''2024-12-31-235959''"
  "run_timestamp world_year_end = ''2024-12-31-235959''"
  "run_local_path world_midnight = ''/tmp/backup-appdb-2024-12-31-235959.dump''"
  "run_s3_key world_midnight = ''backups/2025/01/01/backup-appdb-2024-12-31-235959.dump''"
  "run_s3_key world_year_end = ''backups/2024/12/31/backup-appdb-2024-12-31-235959.dump''"
  by (simp_all add: run_timestamp_def run_local_path_def run_filename_def run_s3_key_def
        variant_config sample_config backup_filename_def s3_key_of_def midnight_clock
        strftime_stamp_def strftime_date_path_def four_digits_def two_digits_def
        digit_char_def)

lemma midnight_results:
  "missing_vars (run_config world_midnight) = []"
  "dump_result world_midnight = Inr \<lparr> returncode = 0, stdout = [], stderr = [] \<rparr>"
  by (simp add: variant_config sample_valid)
     (simp add: dump_result_def world_midnight_def world_ok_def)

lemma empty_or_slash_missing:
  assumes "k \<in> set required_keys"
    and "environ w k = Some [] \<or>
         (k = ''S3_BUCKET'' \<and> (\<exists>rest. environ w k = Some (CHR ''/'' # rest)))"
  shows "k \<in> set (missing_vars (run_config w))"
  using assms(2)
proof (elim disjE conjE exE)
  assume "environ w k = Some []"
  with assms(1) show ?thesis by (rule empty_is_missing)
next
  fix rest
  assume k: "k = ''S3_BUCKET''" and "environ w k = Some (CHR ''/'' # rest)"
  then have "environ w ''S3_BUCKET'' = Some (CHR ''/'' # rest)" by simp
  then have "''S3_BUCKET'' \<in> set (missing_vars (run_config w))" by (rule slash_is_missing)
  then show ?thesis unfolding k .
qed

lemma bucket_worlds:
  "environ world_empty_bucket ''S3_BUCKET'' = Some []"
  "environ world_slash_bucket ''S3_BUCKET'' = Some ''/foo''"
  "missing_vars (run_config world_empty_bucket) = [''S3_BUCKET'']"
  "missing_vars (run_config world_slash_bucket) = [''S3_BUCKET'']"
  "S3_PREFIX (run_config world_slash_bucket) = ''foo/''"
  by (simp_all add: world_empty_bucket_def world_slash_bucket_def world_ok_def run_config_def
        load_config_def sample_environ_def environ_get_def parse_s3_bucket_def split_once_def
        rstrip_slash_def py_or_def Let_def missing_vars_def required_vars_def)

subsection \<open>The claims\<close>




text \<open>
  Claim C2. When any of the five required settings is absent from the environment, the run
  ends with exit status 1; its only external call is the one that hands CloudWatch the
  failure sample, so the dump tool is not started, nothing is uploaded and no notification
  is published; and it logs exactly one error message, the fixed text followed by the
  comma-separated list of the missing settings, in which every absent required setting
  occurs.
\<close>

theorem missing_configuration:
  assumes "k \<in> set required_keys" and "environ w k = None"
  shows "exit_code (main w) = 1 \<and>
         calls (trace (main w)) = [failure_metric (run_config w)] \<and>
         metrics (trace (main w)) = [failure_datum (run_config w)] \<and>
         notifications (trace (main w)) = [] \<and>
         logged ERROR (trace (main w)) =
           [txt_missing_env @ join_comma (missing_vars (run_config w))] \<and>
         (\<forall>k' \<in> set required_keys. environ w k' = None \<longrightarrow>
            k' \<in> set (missing_vars (run_config w)) \<and>
            sublist k' (join_comma (missing_vars (run_config w))))"
proof -
  have m: "k \<in> set (missing_vars (run_config w))"
    using assms by (rule absent_is_missing)
  have all: "k' \<in> set (missing_vars (run_config w)) \<and>
             sublist k' (join_comma (missing_vars (run_config w)))"
    if "k' \<in> set required_keys" and "environ w k' = None" for k'
  proof -
    have "k' \<in> set (missing_vars (run_config w))"
      using that by (rule absent_is_missing)
    then show ?thesis
      by (simp add: join_comma_sublist)
  qed
  show ?thesis
    using invalid_run(1-5) [OF m] all by simp
qed

theorem missing_configuration_witness:
  "''RDS_PASSWORD'' \<in> set required_keys \<and>
   environ world_two_missing ''RDS_PASSWORD'' = None \<and>
   environ world_two_missing ''RDS_HOST'' = None \<and>
   exit_code (main world_two_missing) = 1 \<and>
   calls (trace (main world_two_missing)) =
     [PutMetricData ''RDS/Backup''
        \<lparr> MetricName = ''BackupFailure'', Value = PyInt 1, Unit = ''Count'',
          Dimensions = [(''Database'', Some ''appdb''), (''Status'', Some ''Failed'')] \<rparr>] \<and>
   notifications (trace (main world_two_missing)) = [] \<and>
   logged ERROR (trace (main world_two_missing)) = [txt_missing_env @ ''RDS_HOST, RDS_PASSWORD'']"
proof -
  have k: "''RDS_PASSWORD'' \<in> set required_keys"
    by (simp add: required_keys_def)
  show ?thesis
    using missing_configuration [OF k two_missing_config(4)] k
    by (simp add: two_missing_config failure_metric_def)
qed

text \<open>
  Claim C3, as amended. In a run that starts the dump tool, the tool is given one hour. When
  it exits with a non-zero status, the run logs the dump failure with the tool's error
  output, makes no upload, hands CloudWatch exactly one failure sample, publishes exactly
  one notification when a topic is configured and none otherwise (its body contains the
  error output), and ends with exit status 1. When the tool runs past the hour, the run
  logs the timeout, makes no upload, hands CloudWatch exactly one failure sample,
  publishes the timeout notification when a topic is configured and none otherwise, and
  ends with exit status 1.
\<close>

theorem dump_failure:
  assumes "SubprocessRun argv env t \<in> set (trace (main w))"
  shows "(let c = run_config w; ts = run_timestamp w
          in t = 3600 \<and>
             (\<forall>r. subprocess_run w argv env t = Inr r \<and> returncode r \<noteq> 0 \<longrightarrow>
                exit_code (main w) = 1 \<and>
                uploads (trace (main w)) = [] \<and>
                metrics (trace (main w)) = [failure_datum c] \<and>
                notifications (trace (main w)) =
                  (if SNS_TOPIC_ARN c = [] then []
                   else [(SNS_TOPIC_ARN c, txt_subject_failed @ fmt (RDS_DB_NAME c),
                          dump_failed_body ts r)]) \<and>
                Log ERROR (txt_pg_dump_failed @ stderr r) \<in> set (trace (main w)) \<and>
                sublist (stderr r) (dump_failed_body ts r)) \<and>
             (\<forall>m. subprocess_run w argv env t = Inl (TimeoutExpired m) \<longrightarrow>
                exit_code (main w) = 1 \<and>
                uploads (trace (main w)) = [] \<and>
                metrics (trace (main w)) = [failure_datum c] \<and>
                notifications (trace (main w)) =
                  (if SNS_TOPIC_ARN c = [] then []
                   else [(SNS_TOPIC_ARN c, txt_subject_timeout @ fmt (RDS_DB_NAME c),
                          timeout_body (strftime_stamp (utcnow w 2)))]) \<and>
                Log ERROR txt_timeout \<in> set (trace (main w))))"
proof -
  let ?c = "run_config w"
  note d = dump_call_result [OF assms]
  have failed: "exit_code (main w) = 1 \<and>
                uploads (trace (main w)) = [] \<and>
                metrics (trace (main w)) = [failure_datum ?c] \<and>
                notifications (trace (main w)) =
                  (if SNS_TOPIC_ARN ?c = [] then []
                   else [(SNS_TOPIC_ARN ?c, txt_subject_failed @ fmt (RDS_DB_NAME ?c),
                          dump_failed_body (run_timestamp w) r)]) \<and>
                Log ERROR (txt_pg_dump_failed @ stderr r) \<in> set (trace (main w)) \<and>
                sublist (stderr r) (dump_failed_body (run_timestamp w) r)"
    if "subprocess_run w argv env t = Inr r \<and> returncode r \<noteq> 0" for r
  proof -
    from that have r: "dump_result w = Inr r" and nz: "returncode r \<noteq> 0"
      by (simp_all add: d(3))
    note f = dump_failed_run [OF d(1) r nz]
    have u: "uploads (trace (main w)) = []"
      by (subst uploads_calls) (simp add: f(2) failure_calls_read)
    have m: "metrics (trace (main w)) = [failure_datum ?c]"
      by (subst metrics_calls) (simp add: f(2) failure_calls_read)
    have n: "notifications (trace (main w)) =
                  (if SNS_TOPIC_ARN ?c = [] then []
                   else [(SNS_TOPIC_ARN ?c, txt_subject_failed @ fmt (RDS_DB_NAME ?c),
                          dump_failed_body (run_timestamp w) r)])"
      by (subst notifications_calls) (simp add: f(2) failure_calls_read)
    have s: "sublist (stderr r) (dump_failed_body (run_timestamp w) r)"
      unfolding dump_failed_body_def sublist_def
      by (rule exI [of _ "txt_failed_at @ run_timestamp w @ [CHR 0x0A, CHR 0x0A] @ txt_error @
            txt_pg_dump_failed"]) auto
    show ?thesis
      using f(1) u m n f(3) s by (intro conjI)
  qed
  have timeout: "exit_code (main w) = 1 \<and>
                uploads (trace (main w)) = [] \<and>
                metrics (trace (main w)) = [failure_datum ?c] \<and>
                notifications (trace (main w)) =
                  (if SNS_TOPIC_ARN ?c = [] then []
                   else [(SNS_TOPIC_ARN ?c, txt_subject_timeout @ fmt (RDS_DB_NAME ?c),
                          timeout_body (strftime_stamp (utcnow w 2)))]) \<and>
                Log ERROR txt_timeout \<in> set (trace (main w))"
    if "subprocess_run w argv env t = Inl (TimeoutExpired m)" for m
  proof -
    from that have r: "dump_result w = Inl (TimeoutExpired m)"
      by (simp add: d(3))
    note f = timeout_run [OF d(1) r]
    have u: "uploads (trace (main w)) = []"
      by (subst uploads_calls) (simp add: f(2) failure_calls_read)
    have m: "metrics (trace (main w)) = [failure_datum ?c]"
      by (subst metrics_calls) (simp add: f(2) failure_calls_read)
    have n: "notifications (trace (main w)) =
                  (if SNS_TOPIC_ARN ?c = [] then []
                   else [(SNS_TOPIC_ARN ?c, txt_subject_timeout @ fmt (RDS_DB_NAME ?c),
                          timeout_body (strftime_stamp (utcnow w 2)))])"
      by (subst notifications_calls) (simp add: f(2) failure_calls_read)
    show ?thesis
      using f(1) u m n f(3) by (intro conjI)
  qed
  show ?thesis
    unfolding Let_def
  proof (rule conjI [OF d(2) conjI])
    show "\<forall>r. subprocess_run w argv env t = Inr r \<and> returncode r \<noteq> 0 \<longrightarrow>
                exit_code (main w) = 1 \<and>
                uploads (trace (main w)) = [] \<and>
                metrics (trace (main w)) = [failure_datum ?c] \<and>
                notifications (trace (main w)) =
                  (if SNS_TOPIC_ARN ?c = [] then []
                   else [(SNS_TOPIC_ARN ?c, txt_subject_failed @ fmt (RDS_DB_NAME ?c),
                          dump_failed_body (run_timestamp w) r)]) \<and>
                Log ERROR (txt_pg_dump_failed @ stderr r) \<in> set (trace (main w)) \<and>
                sublist (stderr r) (dump_failed_body (run_timestamp w) r)"
      by (intro allI impI failed)
    show "\<forall>m. subprocess_run w argv env t = Inl (TimeoutExpired m) \<longrightarrow>
                exit_code (main w) = 1 \<and>
                uploads (trace (main w)) = [] \<and>
                metrics (trace (main w)) = [failure_datum ?c] \<and>
                notifications (trace (main w)) =
                  (if SNS_TOPIC_ARN ?c = [] then []
                   else [(SNS_TOPIC_ARN ?c, txt_subject_timeout @ fmt (RDS_DB_NAME ?c),
                          timeout_body (strftime_stamp (utcnow w 2)))]) \<and>
                Log ERROR txt_timeout \<in> set (trace (main w))"
      by (intro allI impI timeout)
  qed
qed

theorem dump_failure_witness:
  "SubprocessRun (child_argv world_dump_fails) (child_env world_dump_fails) 3600 \<in>
     set (trace (main world_dump_fails)) \<and>
   subprocess_run world_dump_fails (child_argv world_dump_fails) (child_env world_dump_fails)
     3600 = Inr failed_dump \<and>
   returncode failed_dump = 1 \<and>
   exit_code (main world_dump_fails) = 1 \<and>
   uploads (trace (main world_dump_fails)) = [] \<and>
   metrics (trace (main world_dump_fails)) =
     [\<lparr> MetricName = ''BackupFailure'', Value = PyInt 1, Unit = ''Count'',
        Dimensions = [(''Database'', Some ''appdb''), (''Status'', Some ''Failed'')] \<rparr>] \<and>
   notifications (trace (main world_dump_fails)) =
     [(''arn:aws:sns:ap-northeast-1:1:ops'', txt_subject_failed @ ''appdb'',
       txt_failed_at @ ''2024-03-07-040509'' @ [CHR 0x0A, CHR 0x0A] @ txt_error @
       txt_pg_dump_failed @ ''pg_dump: error: connection failed'' @ [CHR 0x0A, CHR 0x0A] @
       txt_stdout)] \<and>
   Log ERROR (txt_pg_dump_failed @ ''pg_dump: error: connection failed'') \<in>
     set (trace (main world_dump_fails)) \<and>
   SubprocessRun (child_argv world_dump_times_out) (child_env world_dump_times_out) 3600 \<in>
     set (trace (main world_dump_times_out)) \<and>
   subprocess_run world_dump_times_out (child_argv world_dump_times_out)
     (child_env world_dump_times_out) 3600 =
     Inl (TimeoutExpired ''timed out after 3600 seconds'') \<and>
   exit_code (main world_dump_times_out) = 1 \<and>
   uploads (trace (main world_dump_times_out)) = [] \<and>
   notifications (trace (main world_dump_times_out)) =
     [(''arn:aws:sns:ap-northeast-1:1:ops'', txt_subject_timeout @ ''appdb'',
       txt_timeout_at @ ''2024-03-07-040509'' @ [CHR 0x0A, CHR 0x0A] @ txt_timeout)] \<and>
   Log ERROR txt_timeout \<in> set (trace (main world_dump_times_out))"
proof -
  have m1: "SubprocessRun (child_argv world_dump_fails) (child_env world_dump_fails) 3600 \<in>
      set (trace (main world_dump_fails))"
    unfolding trace_def using dump_worlds_valid(1) by (rule dump_call_made)
  have m2: "SubprocessRun (child_argv world_dump_times_out) (child_env world_dump_times_out)
      3600 \<in> set (trace (main world_dump_times_out))"
    unfolding trace_def using dump_worlds_valid(2) by (rule dump_call_made)
  show ?thesis
    using dump_failure [OF m1] dump_failure [OF m2] m1 m2
    by (simp add: Let_def dump_worlds dump_worlds_timestamp failed_dump_def variant_config
          sample_config failure_datum_def dump_failed_body_def timeout_body_def variant_clock
          sample_timestamp)
qed

text \<open>
  Claim C3 as worded promises one failure notification in every such run. In the run below
  the dump tool exits with status 1 and no topic is configured: line 84 returns before
  anything is published.
\<close>

theorem dump_failure_without_topic:
  "SubprocessRun (child_argv world_dump_fails_no_topic) (child_env world_dump_fails_no_topic)
     3600 \<in> set (trace (main world_dump_fails_no_topic)) \<and>
   subprocess_run world_dump_fails_no_topic (child_argv world_dump_fails_no_topic)
     (child_env world_dump_fails_no_topic) 3600 = Inr failed_dump \<and>
   returncode failed_dump = 1 \<and>
   exit_code (main world_dump_fails_no_topic) = 1 \<and>
   metrics (trace (main world_dump_fails_no_topic)) =
     [\<lparr> MetricName = ''BackupFailure'', Value = PyInt 1, Unit = ''Count'',
        Dimensions = [(''Database'', Some ''appdb''), (''Status'', Some ''Failed'')] \<rparr>] \<and>
   notifications (trace (main world_dump_fails_no_topic)) = []"
proof -
  have mem: "SubprocessRun (child_argv world_dump_fails_no_topic)
      (child_env world_dump_fails_no_topic) 3600 \<in> set (trace (main world_dump_fails_no_topic))"
    unfolding trace_def using dump_worlds_valid(3) by (rule dump_call_made)
  have r: "dump_result world_dump_fails_no_topic = Inr failed_dump"
    by (simp add: dump_result_def dump_worlds)
  have nz: "returncode failed_dump \<noteq> 0"
    by (simp add: failed_dump_def)
  note f = dump_failed_run [OF dump_worlds_valid(3) r nz]
  have m: "metrics (trace (main world_dump_fails_no_topic)) =
      [failure_datum (run_config world_dump_fails_no_topic)]"
    by (subst metrics_calls) (simp add: f(2) failure_calls_read)
  have n: "notifications (trace (main world_dump_fails_no_topic)) = []"
    by (subst notifications_calls) (simp add: f(2) failure_calls_read no_topic_config)
  show ?thesis
    using mem f(1) m n
    by (simp add: dump_worlds failed_dump_def failure_datum_def no_topic_config)
qed

text \<open>
  Claim C4, as amended. In a run that hands the file to S3 and whose upload call fails, the
  dump tool has exited with status 0; the run logs the upload failure, hands CloudWatch
  exactly one failure sample, publishes exactly one notification when a topic is configured
  and none otherwise, never calls \<^verbatim>\<open>os.remove\<close>, and ends with exit status 1. The
  notification has a subject of its own, different from those of the other outcomes for
  the same database, and its body starts with the text saying that the backup file was
  produced but the upload to S3 failed.
\<close>

theorem upload_failure:
  assumes "UploadFile p b k \<in> set (trace (main w))"
    and "upload_file w p b k = Inl e"
  shows "(let c = run_config w;
              subject = txt_subject_upload_failed @ fmt (RDS_DB_NAME c);
              body = upload_failed_body (run_timestamp w) (run_s3_key w)
          in (\<exists>r. dump_result w = Inr r \<and> returncode r = 0) \<and>
             exit_code (main w) = 1 \<and>
             metrics (trace (main w)) = [failure_datum c] \<and>
             notifications (trace (main w)) =
               (if SNS_TOPIC_ARN c = [] then [] else [(SNS_TOPIC_ARN c, subject, body)]) \<and>
             prefix txt_dump_ok_upload_failed body \<and>
             subject \<noteq> txt_subject_failed @ fmt (RDS_DB_NAME c) \<and>
             subject \<noteq> txt_subject_timeout @ fmt (RDS_DB_NAME c) \<and>
             subject \<noteq> txt_subject_success @ fmt (RDS_DB_NAME c) \<and>
             removals (trace (main w)) = [] \<and>
             Log ERROR (txt_upload_failed @ '': '' @
               (if is_no_credentials e then txt_no_credentials else str_exc e)) \<in>
               set (trace (main w)))"
proof -
  let ?c = "run_config w"
  note u = upload_call_result [OF assms(1)]
  from u(2) obtain r where r: "dump_result w = Inr r" and z: "returncode r = 0"
    by (elim exE conjE)
  have up: "upload_result w = Inl e"
    using assms(2) by (simp add: u(6))
  note f = upload_failed_run [OF u(1) r z up]
  have m: "metrics (trace (main w)) = [failure_datum ?c]"
    by (subst metrics_calls) (simp add: f(2) failure_calls_read)
  have n: "notifications (trace (main w)) =
      (if SNS_TOPIC_ARN ?c = [] then []
       else [(SNS_TOPIC_ARN ?c, txt_subject_upload_failed @ fmt (RDS_DB_NAME ?c),
              upload_failed_body (run_timestamp w) (run_s3_key w))])"
    by (subst notifications_calls) (simp add: f(2) failure_calls_read)
  have rm: "removals (trace (main w)) = []"
    by (subst removals_calls) (simp add: f(2) failure_calls_read)
  have pre: "prefix txt_dump_ok_upload_failed
               (upload_failed_body (run_timestamp w) (run_s3_key w))"
    unfolding upload_failed_body_def by (rule prefixI) (rule refl)
  show ?thesis
    unfolding Let_def
    using u(2) f(1) m n pre subjects_differ [of "fmt (RDS_DB_NAME ?c)"] rm f(3)
    by (intro conjI)
qed

theorem upload_failure_witness:
  "UploadFile ''/tmp/backup-appdb-2024-03-07-040509.dump'' ''mybucket''
     ''backups/2024/03/07/backup-appdb-2024-03-07-040509.dump'' \<in>
     set (trace (main world_upload_fails)) \<and>
   upload_file world_upload_fails ''/tmp/backup-appdb-2024-03-07-040509.dump'' ''mybucket''
     ''backups/2024/03/07/backup-appdb-2024-03-07-040509.dump'' =
     Inl (ClientError ''AccessDenied'') \<and>
   exit_code (main world_upload_fails) = 1 \<and>
   metrics (trace (main world_upload_fails)) =
     [\<lparr> MetricName = ''BackupFailure'', Value = PyInt 1, Unit = ''Count'',
        Dimensions = [(''Database'', Some ''appdb''), (''Status'', Some ''Failed'')] \<rparr>] \<and>
   notifications (trace (main world_upload_fails)) =
     [(''arn:aws:sns:ap-northeast-1:1:ops'', txt_subject_upload_failed @ ''appdb'',
       txt_dump_ok_upload_failed @ ''2024-03-07-040509'' @ [CHR 0x0A, CHR 0x0A] @
       ''S3 Key: backups/2024/03/07/backup-appdb-2024-03-07-040509.dump'')] \<and>
   removals (trace (main world_upload_fails)) = [] \<and>
   Log ERROR (txt_upload_failed @ '': AccessDenied'') \<in> set (trace (main world_upload_fails))"
proof -
  have d: "dump_result world_upload_fails = Inr \<lparr> returncode = 0, stdout = [], stderr = [] \<rparr>"
    by (simp add: dump_result_def upload_worlds)
  have z: "returncode \<lparr> returncode = 0, stdout = [], stderr = [] \<rparr> = 0"
    by simp
  have "UploadFile (run_local_path world_upload_fails)
          (S3_BUCKET (run_config world_upload_fails)) (run_s3_key world_upload_fails) \<in>
        set (trace (main world_upload_fails))"
    unfolding trace_def using upload_worlds_valid(1) d z by (rule upload_call_made)
  then have mem: "UploadFile ''/tmp/backup-appdb-2024-03-07-040509.dump'' ''mybucket''
      ''backups/2024/03/07/backup-appdb-2024-03-07-040509.dump'' \<in>
      set (trace (main world_upload_fails))"
    by (simp add: upload_worlds_names variant_config sample_config)
  show ?thesis
    using upload_failure [OF mem upload_worlds(3)] mem
    by (simp add: Let_def upload_worlds upload_worlds_names variant_config sample_config
          failure_datum_def upload_failed_body_def is_no_credentials_def)
qed

text \<open>
  Claim C4 as worded promises one failure notification in every such run. In the run below
  the dump succeeds, the upload is refused and no topic is configured: line 84 returns
  before anything is published.
\<close>

theorem upload_failure_without_topic:
  "UploadFile ''/tmp/backup-appdb-2024-03-07-040509.dump'' ''mybucket''
     ''backups/2024/03/07/backup-appdb-2024-03-07-040509.dump'' \<in>
     set (trace (main world_upload_fails_no_topic)) \<and>
   upload_file world_upload_fails_no_topic ''/tmp/backup-appdb-2024-03-07-040509.dump''
     ''mybucket'' ''backups/2024/03/07/backup-appdb-2024-03-07-040509.dump'' =
     Inl (ClientError ''AccessDenied'') \<and>
   dump_result world_upload_fails_no_topic =
     Inr \<lparr> returncode = 0, stdout = [], stderr = [] \<rparr> \<and>
   exit_code (main world_upload_fails_no_topic) = 1 \<and>
   metrics (trace (main world_upload_fails_no_topic)) =
     [\<lparr> MetricName = ''BackupFailure'', Value = PyInt 1, Unit = ''Count'',
        Dimensions = [(''Database'', Some ''appdb''), (''Status'', Some ''Failed'')] \<rparr>] \<and>
   notifications (trace (main world_upload_fails_no_topic)) = []"
proof -
  have d: "dump_result world_upload_fails_no_topic =
      Inr \<lparr> returncode = 0, stdout = [], stderr = [] \<rparr>"
    by (simp add: dump_result_def upload_worlds)
  have z: "returncode \<lparr> returncode = 0, stdout = [], stderr = [] \<rparr> = 0"
    by simp
  have up: "upload_result world_upload_fails_no_topic = Inl (ClientError ''AccessDenied'')"
    by (simp add: upload_result_def upload_worlds)
  have "UploadFile (run_local_path world_upload_fails_no_topic)
          (S3_BUCKET (run_config world_upload_fails_no_topic))
          (run_s3_key world_upload_fails_no_topic) \<in>
        set (trace (main world_upload_fails_no_topic))"
    unfolding trace_def using upload_worlds_valid(2) d z by (rule upload_call_made)
  then have mem: "UploadFile ''/tmp/backup-appdb-2024-03-07-040509.dump'' ''mybucket''
      ''backups/2024/03/07/backup-appdb-2024-03-07-040509.dump'' \<in>
      set (trace (main world_upload_fails_no_topic))"
    by (simp add: upload_worlds_names no_topic_config)
  note f = upload_failed_run [OF upload_worlds_valid(2) d z up]
  have m: "metrics (trace (main world_upload_fails_no_topic)) =
      [failure_datum (run_config world_upload_fails_no_topic)]"
    by (subst metrics_calls) (simp add: f(2) failure_calls_read)
  have n: "notifications (trace (main world_upload_fails_no_topic)) = []"
    by (subst notifications_calls) (simp add: f(2) failure_calls_read no_topic_config)
  show ?thesis
    using mem d f(1) m n
    by (simp add: upload_worlds failure_datum_def no_topic_config)
qed

text \<open>
  Claim C5, as amended. In a run that hands the file to S3: when the upload succeeds and
  the size of the local file is read, the run calls \<^verbatim>\<open>os.remove\<close> on the local file exactly
  once, as its last external call, and ends with exit status 0; when that call fails, the
  failure is logged as a warning. When the upload fails, or when reading the size fails,
  the run never calls \<^verbatim>\<open>os.remove\<close> and ends with exit status 1. Whatever \<^verbatim>\<open>os.remove\<close> answers,
  the run ends the same way, with the same exit status and the same external calls.
\<close>

theorem cleanup_after_upload:
  assumes "UploadFile p b k \<in> set (trace (main w))"
  shows "(\<forall>n. upload_file w p b k = Inr () \<and> getsize w p = Inr n \<longrightarrow>
            removals (trace (main w)) = [p] \<and>
            last (calls (trace (main w))) = Remove p \<and>
            exit_code (main w) = 0 \<and>
            (\<forall>e. remove_file w p = Inl e \<longrightarrow>
               Log WARNING (txt_cleanup_failed @ str_exc e) \<in> set (trace (main w)))) \<and>
         (\<forall>e. upload_file w p b k = Inl e \<longrightarrow>
            removals (trace (main w)) = [] \<and> exit_code (main w) = 1) \<and>
         (\<forall>e. upload_file w p b k = Inr () \<and> getsize w p = Inl e \<longrightarrow>
            removals (trace (main w)) = [] \<and> exit_code (main w) = 1) \<and>
         fst (main (w \<lparr> remove_file := rf \<rparr>)) = fst (main w) \<and>
         exit_code (main (w \<lparr> remove_file := rf \<rparr>)) = exit_code (main w) \<and>
         calls (trace (main (w \<lparr> remove_file := rf \<rparr>))) = calls (trace (main w))"
proof -
  note u = upload_call_result [OF assms]
  from u(2) obtain r where r: "dump_result w = Inr r" and z: "returncode r = 0"
    by (elim exE conjE)
  have ok: "removals (trace (main w)) = [p] \<and>
            last (calls (trace (main w))) = Remove p \<and>
            exit_code (main w) = 0 \<and>
            (\<forall>e. remove_file w p = Inl e \<longrightarrow>
               Log WARNING (txt_cleanup_failed @ str_exc e) \<in> set (trace (main w)))"
    if "upload_file w p b k = Inr () \<and> getsize w p = Inr n" for n
  proof -
    from that have up: "upload_result w = Inr ()" and sz: "size_result w = Inr n"
      by (simp_all add: u(6) [symmetric] size_result_def u(3) [symmetric])
    note f = uploaded_run [OF u(1) r z up sz]
    have "Log WARNING (txt_cleanup_failed @ str_exc e) \<in> set (trace (main w))"
      if "remove_file w p = Inl e" for e
    proof -
      from that have "remove_result w = Inl e"
        by (simp add: remove_result_def u(3) [symmetric])
      then show ?thesis
        unfolding trace_def by (rule remove_failed_logged [OF u(1) r z up sz])
    qed
    then have "\<forall>e. remove_file w p = Inl e \<longrightarrow>
               Log WARNING (txt_cleanup_failed @ str_exc e) \<in> set (trace (main w))"
      by (intro allI impI)
    then show ?thesis
      using f(3,4,1) unfolding u(3) [symmetric] by (intro conjI)
  qed
  have failed: "removals (trace (main w)) = [] \<and> exit_code (main w) = 1"
    if "upload_file w p b k = Inl e" for e
  proof -
    from that have up: "upload_result w = Inl e"
      by (simp add: u(6) [symmetric])
    note f = upload_failed_run [OF u(1) r z up]
    have "removals (trace (main w)) = []"
      by (subst removals_calls) (simp add: f(2) failure_calls_read)
    with f(1) show ?thesis by (intro conjI)
  qed
  have unread: "removals (trace (main w)) = [] \<and> exit_code (main w) = 1"
    if "upload_file w p b k = Inr () \<and> getsize w p = Inl e" for e
  proof -
    from that have up: "upload_result w = Inr ()" and sz: "size_result w = Inl e"
      by (simp_all add: u(6) [symmetric] size_result_def u(3) [symmetric])
    note f = size_failed_run [OF u(1) r z up sz]
    from f(2,1) show ?thesis by (intro conjI)
  qed
  have code: "exit_code (main (w \<lparr> remove_file := rf \<rparr>)) = exit_code (main w)"
    by (simp only: exit_code_def removal_free)
  have calls: "calls (trace (main (w \<lparr> remove_file := rf \<rparr>))) = calls (trace (main w))"
    by (simp only: trace_def removal_free)
  have A: "\<forall>n. upload_file w p b k = Inr () \<and> getsize w p = Inr n \<longrightarrow>
            removals (trace (main w)) = [p] \<and>
            last (calls (trace (main w))) = Remove p \<and>
            exit_code (main w) = 0 \<and>
            (\<forall>e. remove_file w p = Inl e \<longrightarrow>
               Log WARNING (txt_cleanup_failed @ str_exc e) \<in> set (trace (main w)))"
    by (intro allI impI ok)
  have B: "\<forall>e. upload_file w p b k = Inl e \<longrightarrow>
            removals (trace (main w)) = [] \<and> exit_code (main w) = 1"
    by (intro allI impI failed)
  have C: "\<forall>e. upload_file w p b k = Inr () \<and> getsize w p = Inl e \<longrightarrow>
            removals (trace (main w)) = [] \<and> exit_code (main w) = 1"
    by (intro allI impI unread)
  show ?thesis
    using A B C removal_free(1) [where w = w and rf = rf] code calls
    by (intro conjI)
qed

theorem cleanup_after_upload_witness:
  "UploadFile ''/tmp/backup-appdb-2024-03-07-040509.dump'' ''mybucket''
     ''backups/2024/03/07/backup-appdb-2024-03-07-040509.dump'' \<in>
     set (trace (main world_remove_fails)) \<and>
   upload_file world_remove_fails ''/tmp/backup-appdb-2024-03-07-040509.dump'' ''mybucket''
     ''backups/2024/03/07/backup-appdb-2024-03-07-040509.dump'' = Inr () \<and>
   getsize world_remove_fails ''/tmp/backup-appdb-2024-03-07-040509.dump'' = Inr 1048576 \<and>
   remove_file world_remove_fails ''/tmp/backup-appdb-2024-03-07-040509.dump'' =
     Inl (OtherException ''Permission denied'') \<and>
   removals (trace (main world_remove_fails)) = [''/tmp/backup-appdb-2024-03-07-040509.dump''] \<and>
   last (calls (trace (main world_remove_fails))) =
     Remove ''/tmp/backup-appdb-2024-03-07-040509.dump'' \<and>
   Log WARNING (txt_cleanup_failed @ ''Permission denied'') \<in>
     set (trace (main world_remove_fails)) \<and>
   exit_code (main world_remove_fails) = 0 \<and>
   exit_code (main world_ok) = 0 \<and>
   removals (trace (main world_upload_fails)) = [] \<and>
   exit_code (main world_upload_fails) = 1 \<and>
   removals (trace (main world_size_fails)) = [] \<and>
   exit_code (main world_size_fails) = 1"
proof -
  have ok: "exit_code (main world_ok) = 0"
    by (simp add: exit_code_def main_fst sample_valid sample_results)
  show ?thesis
    using cleanup_after_upload [OF sample_upload_calls(1), where rf = "\<lambda>_. Inr ()"]
      cleanup_after_upload [OF sample_upload_calls(2), where rf = "\<lambda>_. Inr ()"]
      cleanup_after_upload [OF sample_upload_calls(3), where rf = "\<lambda>_. Inr ()"]
      sample_upload_calls(1)
    by (simp add: cleanup_worlds upload_worlds ok)
qed

text \<open>
  Claim C5 as worded promises the deletion after every upload attempt. In the first run
  below the upload is refused, in the second it succeeds and the size of the local file
  cannot be read: both end without a call of \<^verbatim>\<open>os.remove\<close>.
\<close>

theorem no_cleanup_after_failed_upload:
  "UploadFile ''/tmp/backup-appdb-2024-03-07-040509.dump'' ''mybucket''
     ''backups/2024/03/07/backup-appdb-2024-03-07-040509.dump'' \<in>
     set (trace (main world_upload_fails)) \<and>
   upload_file world_upload_fails ''/tmp/backup-appdb-2024-03-07-040509.dump'' ''mybucket''
     ''backups/2024/03/07/backup-appdb-2024-03-07-040509.dump'' =
     Inl (ClientError ''AccessDenied'') \<and>
   removals (trace (main world_upload_fails)) = [] \<and>
   UploadFile ''/tmp/backup-appdb-2024-03-07-040509.dump'' ''mybucket''
     ''backups/2024/03/07/backup-appdb-2024-03-07-040509.dump'' \<in>
     set (trace (main world_size_fails)) \<and>
   upload_file world_size_fails ''/tmp/backup-appdb-2024-03-07-040509.dump'' ''mybucket''
     ''backups/2024/03/07/backup-appdb-2024-03-07-040509.dump'' = Inr () \<and>
   removals (trace (main world_size_fails)) = []"
proof -
  have z: "returncode \<lparr> returncode = 0, stdout = [], stderr = [] \<rparr> = 0"
    by simp
  have d1: "dump_result world_upload_fails = Inr \<lparr> returncode = 0, stdout = [], stderr = [] \<rparr>"
    by (simp add: dump_result_def upload_worlds)
  have u1: "upload_result world_upload_fails = Inl (ClientError ''AccessDenied'')"
    by (simp add: upload_result_def upload_worlds)
  note f = upload_failed_run [OF upload_worlds_valid(1) d1 z u1]
  have r1: "removals (trace (main world_upload_fails)) = []"
    by (subst removals_calls) (simp add: f(2) failure_calls_read)
  have d2: "dump_result world_size_fails = Inr \<lparr> returncode = 0, stdout = [], stderr = [] \<rparr>"
    by (simp add: dump_result_def cleanup_worlds)
  have u2: "upload_result world_size_fails = Inr ()"
    by (simp add: upload_result_def cleanup_worlds)
  have s2: "size_result world_size_fails =
      Inl (OtherException ''[Errno 2] No such file or directory'')"
    by (simp add: size_result_def cleanup_worlds)
  note g = size_failed_run [OF cleanup_worlds_valid(2) d2 z u2 s2]
  show ?thesis
    using sample_upload_calls(2,3) r1 g(2)
    by (simp add: upload_worlds cleanup_worlds)
qed

text \<open>
  Claim C6. \<^verbatim>\<open>send_cloudwatch_metric\<close> and \<^verbatim>\<open>send_sns_notification\<close> return normally whatever the
  client call answers: the metric call is made once and its failure is logged as a warning;
  with a topic configured the publish call is made once and its outcome is logged; with no
  topic configured \<^verbatim>\<open>send_sns_notification\<close> does nothing at all. Replacing the answers of
  CloudWatch and SNS by any others changes neither how the run ends, nor its exit status,
  nor the external calls it makes.
\<close>

theorem observability_never_raises:
  "(let datum = \<lparr> MetricName = name, Value = val, Unit = unit,
                  Dimensions = [(''Database'', RDS_DB_NAME c), (''Status'', Some status)] \<rparr>;
        w' = w \<lparr> put_metric_data := pm, publish := pb \<rparr>
    in fst (send_cloudwatch_metric w c name val unit status) = Inr () \<and>
       snd (send_cloudwatch_metric w c name val unit status) =
         PutMetricData (CLOUDWATCH_NAMESPACE c) datum #
         (case put_metric_data w (CLOUDWATCH_NAMESPACE c) datum of
            Inr _ \<Rightarrow> []
          | Inl e \<Rightarrow> [Log WARNING (txt_metric_failed @
                         (if is_no_credentials e then txt_no_credentials else str_exc e))]) \<and>
       fst (send_sns_notification w c subject message) = Inr () \<and>
       snd (send_sns_notification w c subject message) =
         (if SNS_TOPIC_ARN c = [] then []
          else Publish (SNS_TOPIC_ARN c) subject message #
            (case publish w (SNS_TOPIC_ARN c) subject message of
               Inr _ \<Rightarrow> [Log INFO (txt_sns_sent @ subject)]
             | Inl e \<Rightarrow>
                 [if is_no_credentials e then Log WARNING (txt_sns_failed @ txt_no_credentials)
                  else Log ERROR (txt_sns_failed @ str_exc e)])) \<and>
       send_sns_notification w (c \<lparr> SNS_TOPIC_ARN := [] \<rparr>) subject message = (Inr (), []) \<and>
       fst (main w') = fst (main w) \<and>
       exit_code (main w') = exit_code (main w) \<and>
       calls (trace (main w')) = calls (trace (main w)))"
proof -
  have noop: "send_sns_notification w (c \<lparr> SNS_TOPIC_ARN := [] \<rparr>) subject message = (Inr (), [])"
    by (simp add: send_sns_notification_def ret_def)
  have code: "exit_code (main (w \<lparr> put_metric_data := pm, publish := pb \<rparr>)) =
              exit_code (main w)"
    by (simp only: exit_code_def observability_free)
  have calls: "calls (trace (main (w \<lparr> put_metric_data := pm, publish := pb \<rparr>))) =
               calls (trace (main w))"
    by (simp only: trace_def observability_free)
  show ?thesis
    unfolding Let_def
    using metric_returns [of w c name val unit status] metric_trace [of w c name val unit status]
      notify_returns [of w c subject message] notify_trace [of w c subject message]
      noop observability_free(1) [where w = w and pm = pm and pb = pb] code calls
    by (intro conjI)
qed

theorem observability_never_raises_witness:
  "fst (send_cloudwatch_metric world_no_observability (run_config world_ok)
          ''BackupSuccess'' (PyInt 1) ''Count'' ''Success'') = Inr () \<and>
   snd (send_cloudwatch_metric world_no_observability (run_config world_ok)
          ''BackupSuccess'' (PyInt 1) ''Count'' ''Success'') =
     [PutMetricData ''RDS/Backup''
        \<lparr> MetricName = ''BackupSuccess'', Value = PyInt 1, Unit = ''Count'',
          Dimensions = [(''Database'', Some ''appdb''), (''Status'', Some ''Success'')] \<rparr>,
      Log WARNING (txt_metric_failed @ txt_no_credentials)] \<and>
   fst (send_sns_notification world_no_observability (run_config world_ok)
          ''subject'' ''message'') = Inr () \<and>
   snd (send_sns_notification world_no_observability (run_config world_ok)
          ''subject'' ''message'') =
     [Publish ''arn:aws:sns:ap-northeast-1:1:ops'' ''subject'' ''message'',
      Log ERROR (txt_sns_failed @ ''AuthorizationError'')] \<and>
   exit_code (main world_no_observability) = 0 \<and>
   exit_code (main world_ok) = 0"
proof -
  have failing:
    "put_metric_data world_no_observability =
       (\<lambda>_ _. Inl (NoCredentialsError ''Unable to locate credentials''))"
    "publish world_no_observability = (\<lambda>_ _ _. Inl (ClientError ''AuthorizationError''))"
    by (simp_all add: world_no_observability_def)
  show ?thesis
    using observability_never_raises [where name = "''BackupSuccess''" and val = "PyInt 1"
        and unit = "''Count''" and c = "run_config world_ok" and status = "''Success''"
        and w = world_no_observability and pm = "\<lambda>_ _. Inr ()" and pb = "\<lambda>_ _ _. Inr ()"
        and subject = "''subject''" and message = "''message''"]
      observability_never_raises [where name = "''BackupSuccess''" and val = "PyInt 1"
        and unit = "''Count''" and c = "run_config world_ok" and status = "''Success''"
        and w = world_ok
        and pm = "\<lambda>_ _. Inl (NoCredentialsError ''Unable to locate credentials'')"
        and pb = "\<lambda>_ _ _. Inl (ClientError ''AuthorizationError'')"
        and subject = "''subject''" and message = "''message''"]
    by (simp add: Let_def sample_config failing is_no_credentials_def no_observability_run)
qed



text \<open>
  Claim C8 at a run that starts in the last second of the year 2024, when the clock passes
  midnight between the reading of line 136 and the reading of line 140: the file is
  uploaded under a key whose date path is of 1 January 2025 and whose file name is of
  31 December 2024. A run with the same database name, the same prefix and the same
  timestamp, in which both readings fall in that second, uses another key.
\<close>

theorem key_across_midnight:
  "run_timestamp world_midnight = ''2024-12-31-235959'' \<and>
   run_s3_key world_midnight = ''backups/2025/01/01/backup-appdb-2024-12-31-235959.dump'' \<and>
   UploadFile ''/tmp/backup-appdb-2024-12-31-235959.dump'' ''mybucket''
     ''backups/2025/01/01/backup-appdb-2024-12-31-235959.dump'' \<in>
     set (trace (main world_midnight)) \<and>
   RDS_DB_NAME (run_config world_year_end) = RDS_DB_NAME (run_config world_midnight) \<and>
   S3_PREFIX (run_config world_year_end) = S3_PREFIX (run_config world_midnight) \<and>
   run_timestamp world_year_end = run_timestamp world_midnight \<and>
   run_s3_key world_year_end = ''backups/2024/12/31/backup-appdb-2024-12-31-235959.dump''"
proof -
  have z: "returncode \<lparr> returncode = 0, stdout = [], stderr = [] \<rparr> = 0"
    by simp
  have "UploadFile (run_local_path world_midnight) (S3_BUCKET (run_config world_midnight))
          (run_s3_key world_midnight) \<in> set (trace (main world_midnight))"
    unfolding trace_def using midnight_results z by (rule upload_call_made)
  then have up: "UploadFile ''/tmp/backup-appdb-2024-12-31-235959.dump'' ''mybucket''
     ''backups/2025/01/01/backup-appdb-2024-12-31-235959.dump'' \<in>
     set (trace (main world_midnight))"
    by (simp add: midnight_names variant_config sample_config)
  show ?thesis
    using up by (simp add: midnight_names variant_config)
qed

text \<open>
  Claim C9. Whenever a run starts the dump tool, the environment handed to the child
  process is the environment of the script with \<^verbatim>\<open>PGPASSWORD\<close> set to the configured password,
  and the argument list is the fixed list built from host, port, user name, database name
  and the local path. The argument list does not depend on the password: with any other
  value of \<^verbatim>\<open>RDS_PASSWORD\<close>, or with none, it is the same list.
\<close>

theorem password_only_in_environment:
  assumes "SubprocessRun argv env t \<in> set (trace (main w))"
  shows "env = (environ w)(''PGPASSWORD'' := environ w ''RDS_PASSWORD'') \<and>
         env ''PGPASSWORD'' = environ w ''RDS_PASSWORD'' \<and>
         argv =
           [Some ''pg_dump'',
            Some ''-h'', environ w ''RDS_HOST'',
            Some ''-p'', Some (environ_get (environ w) ''RDS_PORT'' ''5432''),
            Some ''-U'', environ w ''RDS_USERNAME'',
            Some ''-d'', environ w ''RDS_DB_NAME'',
            Some ''-F'', Some ''c'',
            Some ''-f'', Some (''/tmp/backup-'' @ fmt (environ w ''RDS_DB_NAME'') @ ''-'' @
                               strftime_stamp (utcnow w 0) @ ''.dump''),
            Some ''--no-owner'', Some ''--no-acl'', Some ''--verbose''] \<and>
         argv = child_argv (w \<lparr> environ := (environ w)(''RDS_PASSWORD'' := p) \<rparr>)"
proof -
  have eq: "SubprocessRun argv env t = SubprocessRun (child_argv w) (child_env w) 3600"
    using assms unfolding trace_def by (rule dump_call_unique(2))
  then have argv: "argv = child_argv w" and env: "env = child_env w"
    by simp_all
  have e1: "env = (environ w)(''PGPASSWORD'' := environ w ''RDS_PASSWORD'')"
    by (simp add: env child_env_def config_fields)
  then have e2: "env ''PGPASSWORD'' = environ w ''RDS_PASSWORD''"
    by simp
  have a1: "argv =
           [Some ''pg_dump'',
            Some ''-h'', environ w ''RDS_HOST'',
            Some ''-p'', Some (environ_get (environ w) ''RDS_PORT'' ''5432''),
            Some ''-U'', environ w ''RDS_USERNAME'',
            Some ''-d'', environ w ''RDS_DB_NAME'',
            Some ''-F'', Some ''c'',
            Some ''-f'', Some (''/tmp/backup-'' @ fmt (environ w ''RDS_DB_NAME'') @ ''-'' @
                               strftime_stamp (utcnow w 0) @ ''.dump''),
            Some ''--no-owner'', Some ''--no-acl'', Some ''--verbose'']"
    unfolding argv by (rule child_argv_explicit)
  have a2: "argv = child_argv (w \<lparr> environ := (environ w)(''RDS_PASSWORD'' := p) \<rparr>)"
    unfolding a1 child_argv_explicit by (simp add: environ_get_def)
  show ?thesis
    using e1 e2 a1 a2 by (intro conjI)
qed

theorem password_only_in_environment_witness:
  "SubprocessRun (child_argv world_ok) (child_env world_ok) 3600 \<in> set (trace (main world_ok)) \<and>
   environ world_ok ''RDS_PASSWORD'' = Some ''s3cret'' \<and>
   child_env world_ok ''PGPASSWORD'' = Some ''s3cret'' \<and>
   child_argv world_ok =
     [Some ''pg_dump'', Some ''-h'', Some ''db.internal'', Some ''-p'', Some ''5432'',
      Some ''-U'', Some ''backup'', Some ''-d'', Some ''appdb'', Some ''-F'', Some ''c'',
      Some ''-f'', Some ''/tmp/backup-appdb-2024-03-07-040509.dump'',
      Some ''--no-owner'', Some ''--no-acl'', Some ''--verbose'']"
proof -
  have mem: "SubprocessRun (child_argv world_ok) (child_env world_ok) 3600 \<in>
             set (trace (main world_ok))"
    unfolding trace_def using sample_valid by (rule dump_call_made)
  have env: "environ world_ok ''RDS_PASSWORD'' = Some ''s3cret''"
       "environ world_ok ''RDS_HOST'' = Some ''db.internal''"
       "environ world_ok ''RDS_USERNAME'' = Some ''backup''"
       "environ world_ok ''RDS_DB_NAME'' = Some ''appdb''"
       "environ world_ok ''RDS_PORT'' = None"
    by (simp_all add: world_ok_def sample_environ_def)
  show ?thesis
    using password_only_in_environment [OF mem, of None] mem
    by (simp add: env environ_get_def sample_clock sample_timestamp)
qed

text \<open>
  Claim C10. A required setting that is present with the empty string as its value, and a
  bucket setting that starts with the separator (which parses to the empty bucket name),
  are handled like an absent setting: the setting is listed in the one error message, the
  run makes no call besides handing over the failure sample and ends with exit status 1;
  and unsetting the variable changes neither the list of missing settings, nor the error
  message, nor the exit status.
\<close>

theorem empty_value_is_missing:
  assumes "k \<in> set required_keys"
    and "environ w k = Some [] \<or>
         (k = ''S3_BUCKET'' \<and> (\<exists>rest. environ w k = Some (CHR ''/'' # rest)))"
  shows "(let w' = w \<lparr> environ := (environ w)(k := None) \<rparr>
          in k \<in> set (missing_vars (run_config w)) \<and>
             sublist k (join_comma (missing_vars (run_config w))) \<and>
             logged ERROR (trace (main w)) =
               [txt_missing_env @ join_comma (missing_vars (run_config w))] \<and>
             calls (trace (main w)) = [failure_metric (run_config w)] \<and>
             exit_code (main w) = 1 \<and>
             missing_vars (run_config w') = missing_vars (run_config w) \<and>
             logged ERROR (trace (main w')) = logged ERROR (trace (main w)) \<and>
             exit_code (main w') = exit_code (main w) \<and>
             (k = ''S3_BUCKET'' \<longrightarrow> S3_BUCKET (run_config w) = []))"
proof -
  let ?w' = "w \<lparr> environ := (environ w)(k := None) \<rparr>"
  have m: "k \<in> set (missing_vars (run_config w))"
    using assms by (rule empty_or_slash_missing)
  have same: "missing_vars (run_config ?w') = missing_vars (run_config w)"
    using assms by (rule unset_like_empty)
  have "environ ?w' k = None"
    by simp
  with assms(1) have m': "k \<in> set (missing_vars (run_config ?w'))"
    by (rule absent_is_missing)
  have log': "logged ERROR (trace (main ?w')) = logged ERROR (trace (main w))"
    unfolding invalid_run(5) [OF m] invalid_run(5) [OF m'] same by (rule refl)
  have code': "exit_code (main ?w') = exit_code (main w)"
    unfolding invalid_run(1) [OF m] invalid_run(1) [OF m'] by (rule refl)
  have b: "S3_BUCKET (run_config w) = []" if "k = ''S3_BUCKET''"
    using m unfolding that by (simp add: missing_iff)
  show ?thesis
    unfolding Let_def
    using m invalid_run(6) [OF m] invalid_run(5) [OF m] invalid_run(2) [OF m]
      invalid_run(1) [OF m] same log' code' b
    by (intro conjI impI)
qed

theorem empty_value_is_missing_witness:
  "''S3_BUCKET'' \<in> set required_keys \<and>
   environ world_empty_bucket ''S3_BUCKET'' = Some [] \<and>
   environ world_slash_bucket ''S3_BUCKET'' = Some ''/foo'' \<and>
   logged ERROR (trace (main world_empty_bucket)) = [txt_missing_env @ ''S3_BUCKET''] \<and>
   logged ERROR (trace (main world_slash_bucket)) = [txt_missing_env @ ''S3_BUCKET''] \<and>
   exit_code (main world_empty_bucket) = 1 \<and>
   exit_code (main world_slash_bucket) = 1 \<and>
   S3_BUCKET (run_config world_slash_bucket) = [] \<and>
   parse_s3_bucket ''/foo'' = ([], ''foo/'')"
proof -
  have k: "''S3_BUCKET'' \<in> set required_keys"
    by (simp add: required_keys_def)
  have e: "environ world_empty_bucket ''S3_BUCKET'' = Some [] \<or>
      (''S3_BUCKET'' = ''S3_BUCKET'' \<and>
       (\<exists>rest. environ world_empty_bucket ''S3_BUCKET'' = Some (CHR ''/'' # rest)))"
    by (simp add: bucket_worlds)
  have s: "environ world_slash_bucket ''S3_BUCKET'' = Some [] \<or>
      (''S3_BUCKET'' = ''S3_BUCKET'' \<and>
       (\<exists>rest. environ world_slash_bucket ''S3_BUCKET'' = Some (CHR ''/'' # rest)))"
    by (simp add: bucket_worlds)
  have p: "parse_s3_bucket ''/foo'' = ([], ''foo/'')"
    by (simp add: parse_s3_bucket_def split_once_def rstrip_slash_def Let_def)
  show ?thesis
    using empty_value_is_missing [OF k e] empty_value_is_missing [OF k s] k p
    by (simp add: Let_def bucket_worlds)
qed

end
